theory Spec2Isabelle
  imports Main
begin

section \<open>Data model of the chat service\<close>

text \<open>
  The development embeds \<^verbatim>\<open>src/server/src/chat/chat.service.ts\<close> (class
  \<^verbatim>\<open>ChatService\<close>). Strings are \<^typ>\<open>string\<close>; an optional parameter or field
  is an \<^typ>\<open>'a option\<close>; a JavaScript exception is a value of type \<open>error\<close>
  returned as \<open>Inl\<close>. The collaborating services (doctor, patient, pharmacist,
  appointment and prescription service, the cache manager, the language model) are not
  part of the file: each is a parameter, a record of functions that gives the answer of
  the service to each call, and every handler returns, next to its result, the list of
  the calls it made, in order.
\<close>

text \<open>The string enum \<^verbatim>\<open>UserRole\<close>; at run time a role is a string.\<close>

type_synonym UserRole = string

definition PATIENT :: UserRole where "PATIENT = ''patient''"
definition DOCTOR :: UserRole where "DOCTOR = ''doctor''"
definition ADMIN :: UserRole where "ADMIN = ''admin''"
definition PHARMACIST :: UserRole where "PHARMACIST = ''pharmacist''"

text \<open>
  Modelled from the spec: the enums \<^verbatim>\<open>AppointmentStatus\<close>, \<^verbatim>\<open>AppointmentType\<close> and
  \<^verbatim>\<open>AppointmentMode\<close> are imported from files that are not part of the sources; the
  values are the ones the tool descriptions of \<^verbatim>\<open>getTools\<close> and the spec name.
\<close>

definition SCHEDULED :: string where "SCHEDULED = ''SCHEDULED''"
definition CONSULTATION :: string where "CONSULTATION = ''CONSULTATION''"
definition VIRTUAL :: string where "VIRTUAL = ''VIRTUAL''"

text \<open>
  A thrown value: \<^verbatim>\<open>new Error(message)\<close>, or a value that is not an instance of
  \<^verbatim>\<open>Error\<close> (a collaborator may throw anything).
\<close>

datatype error = Error string | NonError

text \<open>\<^verbatim>\<open>error instanceof Error ? error.message : 'Unknown error'\<close>\<close>

fun messageOf :: "error \<Rightarrow> string" where
  "messageOf (Error m) = m"
| "messageOf NonError = ''Unknown error''"

record UserContext =
  userId :: string
  role :: UserRole
  patientId :: "string option"
  doctorId :: "string option"

text \<open>Truthiness of an optional string: \<^verbatim>\<open>undefined\<close> and \<^verbatim>\<open>''\<close> are falsy.\<close>

fun truthy :: "string option \<Rightarrow> bool" where
  "truthy None = False"
| "truthy (Some s) = (s \<noteq> [])"

section \<open>Normalizer\<close>

text \<open>
  \<^verbatim>\<open>String.prototype.toLowerCase\<close>. A \<^typ>\<open>char\<close> is a byte and a string is read
  as UTF-8. The model lower-cases the ASCII letters and the one character outside ASCII
  that lower-cases to an ASCII letter, the Kelvin sign U+212A (bytes \<open>E2 84 AA\<close>), which
  becomes \<open>k\<close>. Every other character outside ASCII is left as it is, whereas JavaScript
  lower-cases it to another character outside ASCII (U+00C9 to U+00E9): the keys of the
  two tables below are ASCII, so the lookups agree with the code, and the difference
  shows only in the text of \<open>noAppointmentsMessage\<close>.
\<close>

definition toLowerChar :: "char \<Rightarrow> char" where
  "toLowerChar c =
     (case map_of (zip ''ABCDEFGHIJKLMNOPQRSTUVWXYZ'' ''abcdefghijklmnopqrstuvwxyz'') c of
        Some l \<Rightarrow> l
      | None \<Rightarrow> c)"

definition kelvinSign :: string where
  "kelvinSign = [CHR 0xE2, CHR 0x84, CHR 0xAA]"

fun toLowerCase :: "string \<Rightarrow> string" where
  "toLowerCase [] = []"
| "toLowerCase (c # s) =
     (if take 3 (c # s) = kelvinSign then CHR ''k'' # toLowerCase (drop 2 s)
      else toLowerChar c # toLowerCase s)"

definition specialties :: "(string \<times> string) list" where
  "specialties =
     [(''cardio'', ''Cardiology''), (''heart'', ''Cardiology''),
      (''dermatology'', ''Dermatology''), (''skin'', ''Dermatology''),
      (''neuro'', ''Neurology''), (''brain'', ''Neurology''),
      (''ortho'', ''Orthopedics''), (''bone'', ''Orthopedics''),
      (''pediatric'', ''Pediatrics''), (''gynecology'', ''Gynecology''),
      (''psychiatry'', ''Psychiatry''), (''oncology'', ''Oncology'')]"

text \<open>
  What a lookup in an object literal hands back where a string is expected: a string, or,
  under the keys \<^verbatim>\<open>constructor\<close> and \<^verbatim>\<open>__proto__\<close>, the member of
  \<^verbatim>\<open>Object.prototype\<close> of that name, which is no string (the other members have a
  capital letter in their names, and the key is in lower case).
\<close>

datatype js_value = JsString string | PrototypeMember string

definition prototypeKeys :: "string list" where
  "prototypeKeys = [''constructor'', ''__proto__'']"

text \<open>
  \<^verbatim>\<open>specialties[specialty.toLowerCase()] || specialty\<close>; the guard
  \<^verbatim>\<open>!specialty\<close> returns the empty string unchanged.
\<close>

definition normalizeSpecialty :: "string \<Rightarrow> js_value" where
  "normalizeSpecialty specialty =
     (if specialty = [] then JsString specialty
      else (case map_of specialties (toLowerCase specialty) of
              Some v \<Rightarrow> JsString v
            | None \<Rightarrow>
                if toLowerCase specialty \<in> set prototypeKeys
                then PrototypeMember (toLowerCase specialty)
                else JsString specialty))"

definition days :: "(string \<times> string) list" where
  "days =
     [(''mon'', ''Monday''), (''tue'', ''Tuesday''), (''wed'', ''Wednesday''),
      (''thu'', ''Thursday''), (''fri'', ''Friday''), (''sat'', ''Saturday''),
      (''sun'', ''Sunday''), (''monday'', ''Monday''), (''tuesday'', ''Tuesday''),
      (''wednesday'', ''Wednesday''), (''thursday'', ''Thursday''),
      (''friday'', ''Friday''), (''saturday'', ''Saturday''), (''sunday'', ''Sunday'')]"

text \<open>
  \<^verbatim>\<open>days[day.toLowerCase()] || day\<close>. The table is an object literal, so the keys
  \<^verbatim>\<open>constructor\<close> and \<^verbatim>\<open>__proto__\<close> find a member of \<^verbatim>\<open>Object.prototype\<close>
  that is not a string; both callers only test the result with \<open>isValidDayOfWeek\<close>,
  which is false for it as it is for the input itself, the value of the model.
\<close>

definition normalizeDayOfWeek :: "string \<Rightarrow> string" where
  "normalizeDayOfWeek day =
     (if day = [] then day
      else (case map_of days (toLowerCase day) of
              Some v \<Rightarrow> v
            | None \<Rightarrow> day))"

definition validDays :: "string list" where
  "validDays = [''Monday'', ''Tuesday'', ''Wednesday'', ''Thursday'', ''Friday'',
                ''Saturday'', ''Sunday'']"

definition isValidDayOfWeek :: "string \<Rightarrow> bool" where
  "isValidDayOfWeek day = (day \<in> set validDays)"

section \<open>Domain gateway\<close>

record Doctor =
  doctor_id :: string
  fullName :: string
  specialty :: string
  appointmentFee :: int
  doctor_status :: string

record DoctorFilterDto =
  filter_specialty :: "js_value option"
  filter_fullName :: "string option"

record PaginationDto =
  page :: nat
  limit :: nat

record DoctorsPage =
  data :: "Doctor list"
  total :: int

record Slot =
  slot_start :: string
  slot_end :: string

record Availability =
  availableSlots :: "Slot list"
  busySlots :: "Slot list"

text \<open>The draft handed to \<^verbatim>\<open>appointmentService.create\<close>.\<close>

record AppointmentDraft =
  draft_patientId :: string
  draft_doctorId :: string
  draft_datetime :: int
  draft_endTime :: int
  draft_startTime :: int
  draft_status :: string
  draft_type :: string
  draft_mode :: string

text \<open>
  The user id behind the patient or the doctor of an appointment, as
  \<^verbatim>\<open>appointment.patient?.user.id\<close> reads it: the relation is not loaded (the
  expression is \<^verbatim>\<open>undefined\<close>), or it is loaded without its user (the expression
  throws a \<^verbatim>\<open>TypeError\<close>), or the user has an id.
\<close>

datatype related_user = NotLoaded | WithoutUser | UserId string

record Appointment =
  appointment_id :: string
  appointment_datetime :: int
  appointment_status :: string
  appointment_type :: string
  appointment_mode :: string
  appointment_doctorName :: "string option"
  appointment_patientName :: "string option"
  appointment_doctorUser :: related_user
  appointment_patientUser :: related_user

record AppointmentsPage =
  appointments_data :: "Appointment list"
  appointments_total :: int

record Prescription =
  prescription_id :: string
  issueDate :: int
  expiryDate :: int
  isFulfilled :: bool
  prescription_items :: "string list"
  prescription_patient :: "(string \<times> string) option"
  prescribedBy :: "(string \<times> string) option"
  fulfilledBy :: "(string \<times> string) option"

text \<open>
  The answers of the collaborating services. A lookup that finds nothing answers
  \<open>Inr None\<close>; a call that throws answers \<open>Inl e\<close>.
\<close>

record gateway =
  patient_findByUserId :: "string \<Rightarrow> error + string option"
  doctor_findByUserId :: "string \<Rightarrow> error + string option"
  pharmacist_findByUserId :: "string \<Rightarrow> error + string option"
  doctor_findAll :: "PaginationDto \<Rightarrow> DoctorFilterDto \<Rightarrow> error + DoctorsPage"
  getDoctorAvailability :: "string \<Rightarrow> string \<Rightarrow> error + Availability"
  doctor_findOne :: "string \<Rightarrow> error + Doctor option"
  appointment_create :: "AppointmentDraft \<Rightarrow> error + Appointment"
  appointment_findAll ::
    "PaginationDto \<Rightarrow> string option \<Rightarrow> string \<Rightarrow> string \<Rightarrow> error + AppointmentsPage"
  appointment_findOne :: "string \<Rightarrow> error + Appointment option"
  appointment_cancel :: "string \<Rightarrow> string option \<Rightarrow> error + Appointment"
  prescription_findAll :: "string \<Rightarrow> UserRole \<Rightarrow> error + Prescription list"
  prescription_findOne :: "string \<Rightarrow> string \<Rightarrow> UserRole \<Rightarrow> error + Prescription option"

text \<open>One call to a collaborator, as recorded in the trace of a handler.\<close>

datatype call =
    PatientFindByUserId string
  | DoctorFindByUserId string
  | PharmacistFindByUserId string
  | DoctorFindAll PaginationDto DoctorFilterDto
  | GetDoctorAvailability string string
  | DoctorFindOne string
  | AppointmentCreate AppointmentDraft
  | AppointmentFindAll PaginationDto "string option" string string
  | AppointmentFindOne string
  | AppointmentCancel string "string option"
  | PrescriptionFindAll string UserRole
  | PrescriptionFindOne string string UserRole
  | StreamText
  | AwaitText
  | ProbeText

section \<open>Read handlers for doctors\<close>

text \<open>
  The payloads carry the fields of the source's object literals; the field
  \<^verbatim>\<open>summary\<close>, a sentence for the reader assembled from the other fields, is left
  out of every payload.
\<close>

record DoctorSummary =
  ds_id :: string
  ds_name :: string
  ds_specialty :: string
  ds_appointmentFee :: int
  ds_status :: string

record ListDoctorsResult =
  ld_success :: bool
  ld_error :: "string option"
  ld_message :: "string option"
  ld_specialty :: "string option"
  ld_total :: int
  ld_doctors :: "DoctorSummary list"

text \<open>The filter built from an optional specialty: \<^verbatim>\<open>if (specialty) filter.specialty = ...\<close>\<close>

definition specialtyFilter :: "string option \<Rightarrow> DoctorFilterDto" where
  "specialtyFilter sp =
     \<lparr>filter_specialty = (if truthy sp then Some (normalizeSpecialty (the sp)) else None),
      filter_fullName = None\<rparr>"

definition noDoctorsMessage :: "string option \<Rightarrow> string" where
  "noDoctorsMessage sp =
     (if truthy sp then ''No '' @ the sp @ '' specialists found'' else ''No doctors found'')"

definition listDoctors :: "gateway \<Rightarrow> string option \<Rightarrow> (error + ListDoctorsResult) \<times> call list" where
  "listDoctors g sp =
     (let flt = specialtyFilter sp;
          pagination = \<lparr>page = 1, limit = 50\<rparr>;
          calls = [DoctorFindAll pagination flt]
      in case doctor_findAll g pagination flt of
           Inl e \<Rightarrow> (Inl (Error ''Failed to retrieve doctors list''), calls)
         | Inr doctors \<Rightarrow>
             if data doctors = [] then
               (Inr \<lparr>ld_success = False, ld_error = None,
                     ld_message = Some (noDoctorsMessage sp),
                     ld_specialty = None, ld_total = 0, ld_doctors = []\<rparr>, calls)
             else
               (Inr \<lparr>ld_success = True, ld_error = None, ld_message = None,
                     ld_specialty = sp, ld_total = total doctors,
                     ld_doctors =
                       map (\<lambda>d. \<lparr>ds_id = doctor_id d, ds_name = fullName d,
                                   ds_specialty = specialty d,
                                   ds_appointmentFee = appointmentFee d,
                                   ds_status = doctor_status d\<rparr>) (data doctors)\<rparr>, calls))"

record AvailableDoctor =
  ad_id :: string
  ad_name :: string
  ad_specialty :: string
  ad_appointmentFee :: int
  ad_availableSlots :: nat
  ad_sampleTimeSlots :: "string list"

record AvailableDoctorsResult =
  av_success :: bool
  av_message :: "string option"
  av_total :: nat
  av_doctors :: "AvailableDoctor list"
  av_dayOfWeek :: "string option"
  av_specialty :: "string option"

definition invalidDayMessage :: string where
  "invalidDayMessage =
     ''Invalid day of week. Please use Monday, Tuesday, Wednesday, Thursday, Friday, Saturday, or Sunday.''"

text \<open>\<^verbatim>\<open>`${slot.start}-${slot.end}`\<close>\<close>

definition slotText :: "Slot \<Rightarrow> string" where
  "slotText s = slot_start s @ ''-'' @ slot_end s"

text \<open>
  The loop \<^verbatim>\<open>for (const doctor of doctors.data)\<close> of \<^verbatim>\<open>listAvailableDoctorsByDay\<close>
  with \<^verbatim>\<open>availableDoctors\<close> as accumulator: a lookup that throws is caught inside the
  loop body and the loop continues with the next doctor.
\<close>

fun availableDoctorsLoop ::
  "gateway \<Rightarrow> string \<Rightarrow> Doctor list \<Rightarrow> AvailableDoctor list \<Rightarrow> AvailableDoctor list" where
  "availableDoctorsLoop g day [] availableDoctors = availableDoctors"
| "availableDoctorsLoop g day (doctor # rest) availableDoctors =
     (case getDoctorAvailability g (doctor_id doctor) day of
        Inl e \<Rightarrow> availableDoctorsLoop g day rest availableDoctors
      | Inr availability \<Rightarrow>
          if availableSlots availability \<noteq> [] then
            availableDoctorsLoop g day rest
              (availableDoctors @
                 [\<lparr>ad_id = doctor_id doctor, ad_name = fullName doctor,
                   ad_specialty = specialty doctor,
                   ad_appointmentFee = appointmentFee doctor,
                   ad_availableSlots = length (availableSlots availability),
                   ad_sampleTimeSlots = map slotText (take 3 (availableSlots availability))\<rparr>])
          else availableDoctorsLoop g day rest availableDoctors)"

definition noneAvailableMessage :: "string option \<Rightarrow> string \<Rightarrow> string" where
  "noneAvailableMessage sp normalizedDay =
     (if truthy sp then ''No '' @ the sp @ '' specialists available on '' @ normalizedDay
      else ''No doctors available on '' @ normalizedDay)"

definition listAvailableDoctorsByDay ::
  "gateway \<Rightarrow> string \<Rightarrow> string option \<Rightarrow> (error + AvailableDoctorsResult) \<times> call list" where
  "listAvailableDoctorsByDay g dayOfWeek sp =
     (let normalizedDay = normalizeDayOfWeek dayOfWeek in
      if \<not> isValidDayOfWeek normalizedDay then (Inl (Error invalidDayMessage), [])
      else
        let flt = specialtyFilter sp;
            pagination = \<lparr>page = 1, limit = 50\<rparr>
        in case doctor_findAll g pagination flt of
             Inl e \<Rightarrow> (Inl (Error ''Failed to retrieve available doctors''),
                        [DoctorFindAll pagination flt])
           | Inr doctors \<Rightarrow>
               if data doctors = [] then
                 (Inr \<lparr>av_success = False, av_message = Some (noDoctorsMessage sp),
                       av_total = 0, av_doctors = [], av_dayOfWeek = None,
                       av_specialty = None\<rparr>,
                  [DoctorFindAll pagination flt])
               else
                 let availableDoctors = availableDoctorsLoop g normalizedDay (data doctors) [];
                     calls = DoctorFindAll pagination flt #
                               map (\<lambda>d. GetDoctorAvailability (doctor_id d) normalizedDay)
                                 (data doctors)
                 in if availableDoctors = [] then
                      (Inr \<lparr>av_success = False,
                            av_message = Some (noneAvailableMessage sp normalizedDay),
                            av_total = 0, av_doctors = [], av_dayOfWeek = None,
                            av_specialty = None\<rparr>, calls)
                    else
                      (Inr \<lparr>av_success = True, av_message = None,
                            av_total = length availableDoctors,
                            av_doctors = availableDoctors,
                            av_dayOfWeek = Some normalizedDay, av_specialty = sp\<rparr>, calls))"

record DoctorAvailabilityResult =
  da_success :: bool
  da_message :: "string option"
  da_doctorId :: "string option"
  da_doctorName :: "string option"
  da_dayOfWeek :: "string option"
  da_availableSlots :: "Slot list option"
  da_busySlots :: "Slot list option"
  da_totalAvailable :: "nat option"

definition requiredMessage :: string where
  "requiredMessage = ''Doctor name and day of week are required''"

text \<open>
  The \<^verbatim>\<open>catch\<close> of \<^verbatim>\<open>handleDoctorAvailabilityByDay\<close> wraps whatever the two gateway
  calls throw.
\<close>

definition unableToCheck :: "string \<Rightarrow> error \<Rightarrow> error" where
  "unableToCheck doctorName e =
     Error (''Unable to check availability for Dr. '' @ doctorName @ '': '' @ messageOf e)"

definition handleDoctorAvailabilityByDay ::
  "gateway \<Rightarrow> string \<Rightarrow> string \<Rightarrow> (error + DoctorAvailabilityResult) \<times> call list" where
  "handleDoctorAvailabilityByDay g doctorName dayOfWeek =
     (if doctorName = [] \<or> dayOfWeek = [] then (Inl (Error requiredMessage), [])
      else
        let normalizedDay = normalizeDayOfWeek dayOfWeek in
        if \<not> isValidDayOfWeek normalizedDay then (Inl (Error invalidDayMessage), [])
        else
          let pagination = \<lparr>page = 1, limit = 1\<rparr>;
              flt = \<lparr>filter_specialty = None, filter_fullName = Some doctorName\<rparr>
          in case doctor_findAll g pagination flt of
               Inl e \<Rightarrow> (Inl (unableToCheck doctorName e), [DoctorFindAll pagination flt])
             | Inr doctorsResponse \<Rightarrow>
                 (case data doctorsResponse of
                    [] \<Rightarrow>
                      (Inr \<lparr>da_success = False,
                            da_message = Some (''No doctor found with name: '' @ doctorName),
                            da_doctorId = None, da_doctorName = None, da_dayOfWeek = None,
                            da_availableSlots = None, da_busySlots = None,
                            da_totalAvailable = None\<rparr>,
                       [DoctorFindAll pagination flt])
                  | doctor # _ \<Rightarrow>
                      let calls = [DoctorFindAll pagination flt,
                                   GetDoctorAvailability (doctor_id doctor) normalizedDay]
                      in (case getDoctorAvailability g (doctor_id doctor) normalizedDay of
                            Inl e \<Rightarrow> (Inl (unableToCheck doctorName e), calls)
                          | Inr availability \<Rightarrow>
                              if availableSlots availability = [] then
                                (Inr \<lparr>da_success = False,
                                      da_message =
                                        Some (''Dr. '' @ fullName doctor @
                                              '' has no available slots on '' @ normalizedDay),
                                      da_doctorId = Some (doctor_id doctor),
                                      da_doctorName = Some (fullName doctor),
                                      da_dayOfWeek = Some normalizedDay,
                                      da_availableSlots = None, da_busySlots = None,
                                      da_totalAvailable = None\<rparr>, calls)
                              else
                                (Inr \<lparr>da_success = True, da_message = None,
                                      da_doctorId = Some (doctor_id doctor),
                                      da_doctorName = Some (fullName doctor),
                                      da_dayOfWeek = Some normalizedDay,
                                      da_availableSlots = Some (availableSlots availability),
                                      da_busySlots = Some (busySlots availability),
                                      da_totalAvailable =
                                        Some (length (availableSlots availability))\<rparr>,
                                 calls))))"

section \<open>Context resolver\<close>

text \<open>
  \<^verbatim>\<open>getUserContext\<close>: the \<^verbatim>\<open>switch\<close> on the role, with its \<^verbatim>\<open>default\<close> branch. The
  surrounding \<^verbatim>\<open>catch\<close> logs and throws the error again.
\<close>

definition getUserContext :: "gateway \<Rightarrow> string \<Rightarrow> UserRole \<Rightarrow> (error + UserContext) \<times> call list" where
  "getUserContext g uid r =
     (let context = \<lparr>userId = uid, role = r, patientId = None, doctorId = None\<rparr> in
      if r = PATIENT then
        (case patient_findByUserId g uid of
           Inl e \<Rightarrow> (Inl e, [PatientFindByUserId uid])
         | Inr None \<Rightarrow> (Inl (Error ''Patient profile not found''), [PatientFindByUserId uid])
         | Inr (Some pid) \<Rightarrow>
             (Inr (context\<lparr>patientId := Some pid\<rparr>), [PatientFindByUserId uid]))
      else if r = DOCTOR then
        (case doctor_findByUserId g uid of
           Inl e \<Rightarrow> (Inl e, [DoctorFindByUserId uid])
         | Inr None \<Rightarrow> (Inl (Error ''Doctor profile not found''), [DoctorFindByUserId uid])
         | Inr (Some did) \<Rightarrow>
             (Inr (context\<lparr>doctorId := Some did\<rparr>), [DoctorFindByUserId uid]))
      else if r = PHARMACIST then
        (case pharmacist_findByUserId g uid of
           Inl e \<Rightarrow> (Inl e, [PharmacistFindByUserId uid])
         | Inr None \<Rightarrow>
             (Inl (Error ''Pharmacist profile not found''), [PharmacistFindByUserId uid])
         | Inr (Some phid) \<Rightarrow>
             (Inr (context\<lparr>doctorId := Some phid\<rparr>), [PharmacistFindByUserId uid]))
      else if r = ADMIN then (Inr context, [])
      else (Inr (context\<lparr>role := PATIENT\<rparr>), []))"

section \<open>Appointments\<close>

record BookingDetails =
  bd_doctorName :: string
  bd_type :: string
  bd_mode :: string
  bd_status :: string

text \<open>
  The result of a booking. The fields \<^verbatim>\<open>message\<close> and \<^verbatim>\<open>details.datetime\<close> print the
  start time with \<^verbatim>\<open>toLocaleString\<close>, which depends on the locale of the server; they
  are left out.
\<close>

record BookingResult =
  br_success :: bool
  br_appointmentId :: string
  br_details :: BookingDetails

definition onlyPatientsMessage :: "UserRole \<Rightarrow> string" where
  "onlyPatientsMessage r =
     ''Only patients can book appointments. Your current role is '' @ [CHR 0x27] @ r @
     [CHR 0x27] @ ''.''"

definition noPatientProfileMessage :: string where
  "noPatientProfileMessage =
     ''Patient profile not found. Please ensure you have a valid patient account.''"

definition invalidDateMessage :: string where
  "invalidDateMessage =
     ''Invalid date format provided. Please use ISO format (YYYY-MM-DDTHH:mm:ss.sssZ)''"

text \<open>\<^verbatim>\<open>(type as AppointmentType) || AppointmentType.CONSULTATION\<close>\<close>

definition orDefault :: "string option \<Rightarrow> string \<Rightarrow> string" where
  "orDefault v d = (if truthy v then the v else d)"

text \<open>
  \<^verbatim>\<open>bookAppointment\<close>. The run time's \<^verbatim>\<open>new Date(string)\<close> is the parameter
  \<open>parseDate\<close>: the time value in milliseconds, or \<open>None\<close> for an invalid date
  (\<^verbatim>\<open>isNaN(d.getTime())\<close>); \<open>now\<close> is the time value of \<^verbatim>\<open>new Date()\<close>. Two dates
  compare by their time values.
\<close>

definition bookAppointment ::
  "gateway \<Rightarrow> (string \<Rightarrow> int option) \<Rightarrow> int \<Rightarrow> string \<Rightarrow> UserContext \<Rightarrow> string \<Rightarrow> string \<Rightarrow>
   string option \<Rightarrow> string option \<Rightarrow> (error + BookingResult) \<times> call list" where
  "bookAppointment g parseDate now doctorId' userContext startTime endTime type' mode' =
     (if role userContext \<noteq> PATIENT then
        (Inl (Error (onlyPatientsMessage (role userContext))), [])
      else if \<not> truthy (patientId userContext) then (Inl (Error noPatientProfileMessage), [])
      else if doctorId' = [] \<or> startTime = [] \<or> endTime = [] then
        (Inl (Error ''Doctor ID, start time, and end time are required''), [])
      else
        (case (parseDate startTime, parseDate endTime) of
           (Some start, Some end') \<Rightarrow>
             if start < now then (Inl (Error ''Cannot book appointments in the past''), [])
             else if start \<ge> end' then
               (Inl (Error ''Start time must be before end time''), [])
             else
               (case doctor_findOne g doctorId' of
                  Inl e \<Rightarrow> (Inl e, [DoctorFindOne doctorId'])
                | Inr None \<Rightarrow> (Inl (Error ''Doctor not found''), [DoctorFindOne doctorId'])
                | Inr (Some doctor) \<Rightarrow>
                    let draft =
                          \<lparr>draft_patientId = the (patientId userContext),
                           draft_doctorId = doctorId',
                           draft_datetime = start,
                           draft_endTime = end',
                           draft_startTime = start,
                           draft_status = SCHEDULED,
                           draft_type = orDefault type' CONSULTATION,
                           draft_mode = orDefault mode' VIRTUAL\<rparr>;
                        calls = [DoctorFindOne doctorId', AppointmentCreate draft]
                    in (case appointment_create g draft of
                          Inl e \<Rightarrow> (Inl e, calls)
                        | Inr appointment \<Rightarrow>
                            (Inr \<lparr>br_success = True,
                                  br_appointmentId = appointment_id appointment,
                                  br_details =
                                    \<lparr>bd_doctorName =
                                       orDefault (appointment_doctorName appointment)
                                         (fullName doctor),
                                     bd_type = appointment_type appointment,
                                     bd_mode = appointment_mode appointment,
                                     bd_status = appointment_status appointment\<rparr>\<rparr>,
                             calls)))
         | _ \<Rightarrow> (Inl (Error invalidDateMessage), [])))"

record AppointmentSummary =
  as_id :: string
  as_datetime :: int
  as_status :: string
  as_type :: string
  as_mode :: string
  as_doctorName :: "string option"
  as_patientName :: "string option"

record MyAppointmentsResult =
  ma_success :: bool
  ma_message :: "string option"
  ma_total :: int
  ma_appointments :: "AppointmentSummary list"
  ma_role :: string

definition noAppointmentsMessage :: "string option \<Rightarrow> string" where
  "noAppointmentsMessage status =
     ''No '' @ (if truthy status then toLowerCase (the status) @ '' '' else []) @
     ''appointments found''"

text \<open>
  \<^verbatim>\<open>getMyAppointments\<close>. The filter \<^verbatim>\<open>{status?}\<close> is the status when it is truthy;
  the last argument of \<^verbatim>\<open>appointmentService.findAll\<close> is the role scope.
\<close>

definition getMyAppointments ::
  "gateway \<Rightarrow> UserContext \<Rightarrow> string option \<Rightarrow> (error + MyAppointmentsResult) \<times> call list" where
  "getMyAppointments g userContext status =
     (let flt = (if truthy status then status else None);
          pagination = \<lparr>page = 1, limit = 50\<rparr>;
          scope =
            (if role userContext = PATIENT \<and> truthy (patientId userContext) then Some ''patient''
             else if role userContext = DOCTOR \<and> truthy (doctorId userContext) then Some ''doctor''
             else if role userContext = ADMIN then Some ''admin''
             else None)
      in case scope of
           None \<Rightarrow>
             (Inl (Error (''Unable to retrieve appointments for role: '' @ role userContext)), [])
         | Some sc \<Rightarrow>
             let calls = [AppointmentFindAll pagination flt (userId userContext) sc] in
             (case appointment_findAll g pagination flt (userId userContext) sc of
                Inl e \<Rightarrow> (Inl e, calls)
              | Inr appointments \<Rightarrow>
                  if appointments_data appointments = [] then
                    (Inr \<lparr>ma_success = True,
                          ma_message = Some (noAppointmentsMessage status),
                          ma_total = 0, ma_appointments = [],
                          ma_role = role userContext\<rparr>, calls)
                  else
                    (Inr \<lparr>ma_success = True, ma_message = None,
                          ma_total = appointments_total appointments,
                          ma_appointments =
                            map (\<lambda>apt. \<lparr>as_id = appointment_id apt,
                                          as_datetime = appointment_datetime apt,
                                          as_status = appointment_status apt,
                                          as_type = appointment_type apt,
                                          as_mode = appointment_mode apt,
                                          as_doctorName = appointment_doctorName apt,
                                          as_patientName = appointment_patientName apt\<rparr>)
                              (appointments_data appointments),
                          ma_role = role userContext\<rparr>, calls)))"

record CancelResult =
  cr_success :: bool
  cr_message :: string
  cr_appointmentId :: string
  cr_reason :: string
  cr_cancelledBy :: string

definition missingUserMessage :: string where
  "missingUserMessage =
     ''Cannot read properties of undefined (reading '' @ [CHR 0x27] @ ''id'' @ [CHR 0x27] @ '')''"

text \<open>
  \<^verbatim>\<open>if (appointment.patient?.user.id !== userContext.userId) throw new Error(message)\<close>:
  the comparison of the user behind an appointment with the caller, with the message of
  the refusal. A relation loaded without its user makes the expression throw a
  \<^verbatim>\<open>TypeError\<close>, which is an \<^verbatim>\<open>Error\<close>.
\<close>

fun sameUser :: "related_user \<Rightarrow> string \<Rightarrow> string \<Rightarrow> error + unit" where
  "sameUser NotLoaded uid message = Inl (Error message)"
| "sameUser WithoutUser uid message = Inl (Error missingUserMessage)"
| "sameUser (UserId u) uid message = (if u \<noteq> uid then Inl (Error message) else Inr ())"

text \<open>
  The permission check of \<^verbatim>\<open>cancelAppointment\<close> for a patient or a doctor: the
  appointment is looked up and the user id of its patient (of its doctor) is compared
  with the caller's. \<open>Inr ()\<close> lets the cancellation go on.
\<close>

definition cancelPermission ::
  "gateway \<Rightarrow> string \<Rightarrow> UserContext \<Rightarrow> (error + unit) \<times> call list" where
  "cancelPermission g appointmentId userContext =
     (if role userContext = PATIENT then
        (case appointment_findOne g appointmentId of
           Inl e \<Rightarrow> (Inl e, [AppointmentFindOne appointmentId])
         | Inr None \<Rightarrow> (Inl (Error ''Appointment not found''), [AppointmentFindOne appointmentId])
         | Inr (Some appointment) \<Rightarrow>
             (sameUser (appointment_patientUser appointment) (userId userContext)
                ''You can only cancel your own appointments'',
              [AppointmentFindOne appointmentId]))
      else if role userContext = DOCTOR then
        (case appointment_findOne g appointmentId of
           Inl e \<Rightarrow> (Inl e, [AppointmentFindOne appointmentId])
         | Inr None \<Rightarrow> (Inl (Error ''Appointment not found''), [AppointmentFindOne appointmentId])
         | Inr (Some appointment) \<Rightarrow>
             (sameUser (appointment_doctorUser appointment) (userId userContext)
                ''You can only cancel appointments assigned to you'',
              [AppointmentFindOne appointmentId]))
      else (Inr (), []))"

definition cancelAppointment ::
  "gateway \<Rightarrow> string \<Rightarrow> UserContext \<Rightarrow> string option \<Rightarrow> (error + CancelResult) \<times> call list" where
  "cancelAppointment g appointmentId userContext reason =
     (if appointmentId = [] then (Inl (Error ''Appointment ID is required''), [])
      else
        (case cancelPermission g appointmentId userContext of
           (Inl e, calls) \<Rightarrow> (Inl e, calls)
         | (Inr _, calls) \<Rightarrow>
             (case appointment_cancel g appointmentId reason of
                Inl e \<Rightarrow> (Inl e, calls @ [AppointmentCancel appointmentId reason])
              | Inr cancelledAppointment \<Rightarrow>
                  (Inr \<lparr>cr_success = True,
                        cr_message = ''Appointment cancelled successfully'',
                        cr_appointmentId = appointment_id cancelledAppointment,
                        cr_reason = orDefault reason ''No reason provided'',
                        cr_cancelledBy =
                          (if role userContext \<noteq> [] then role userContext else ''unknown'')\<rparr>,
                   calls @ [AppointmentCancel appointmentId reason]))))"

section \<open>Prescriptions\<close>

text \<open>
  In a \<open>Prescription\<close> the patient, the prescribing doctor and the fulfilling pharmacist
  are pairs of the person's full name and id, absent when the relation is not loaded.
\<close>

record PrescriptionSummary =
  ps_id :: string
  ps_issueDate :: int
  ps_expiryDate :: int
  ps_isFulfilled :: bool
  ps_patientName :: "string option"
  ps_doctorName :: "string option"
  ps_pharmacistName :: "string option"
  ps_itemsCount :: nat

record MyPrescriptionsResult =
  mp_success :: bool
  mp_message :: "string option"
  mp_total :: nat
  mp_prescriptions :: "PrescriptionSummary list"
  mp_role :: UserRole

text \<open>\<^verbatim>\<open>role || userContext.role\<close>: the role of the tool call unless it is empty.\<close>

definition effectiveRole :: "UserRole \<Rightarrow> UserContext \<Rightarrow> UserRole" where
  "effectiveRole r userContext = (if r \<noteq> [] then r else role userContext)"

definition adminPrescriptionsMessage :: string where
  "adminPrescriptionsMessage =
     ''As an admin, you can view system data but cannot access role-specific prescriptions directly. Please specify the correct role parameter.''"

definition adminPrescriptionDetailsMessage :: string where
  "adminPrescriptionDetailsMessage =
     ''As an admin, you can view system data but cannot access role-specific prescription details directly. Please specify the correct role parameter.''"

definition getMyPrescriptions ::
  "gateway \<Rightarrow> UserContext \<Rightarrow> UserRole \<Rightarrow> (error + MyPrescriptionsResult) \<times> call list" where
  "getMyPrescriptions g userContext r =
     (let eff = effectiveRole r userContext in
      if eff = [] then
        (Inl (Error ''User role is required to retrieve prescriptions''), [])
      else if role userContext = ADMIN \<and> eff \<noteq> ADMIN then
        (Inl (Error adminPrescriptionsMessage), [])
      else
        let calls = [PrescriptionFindAll (userId userContext) eff] in
        (case prescription_findAll g (userId userContext) eff of
           Inl e \<Rightarrow> (Inl e, calls)
         | Inr prescriptions \<Rightarrow>
             if prescriptions = [] then
               (Inr \<lparr>mp_success = True, mp_message = Some ''No prescriptions found'',
                     mp_total = 0, mp_prescriptions = [], mp_role = eff\<rparr>, calls)
             else
               (Inr \<lparr>mp_success = True, mp_message = None,
                     mp_total = length prescriptions,
                     mp_prescriptions =
                       map (\<lambda>p. \<lparr>ps_id = prescription_id p,
                                   ps_issueDate = issueDate p,
                                   ps_expiryDate = expiryDate p,
                                   ps_isFulfilled = isFulfilled p,
                                   ps_patientName = map_option fst (prescription_patient p),
                                   ps_doctorName = map_option fst (prescribedBy p),
                                   ps_pharmacistName = map_option fst (fulfilledBy p),
                                   ps_itemsCount = length (prescription_items p)\<rparr>)
                         prescriptions,
                     mp_role = eff\<rparr>, calls)))"

record PrescriptionDetails =
  pd_success :: bool
  pd_id :: string
  pd_issueDate :: int
  pd_expiryDate :: int
  pd_isFulfilled :: bool
  pd_items :: "string list"
  pd_patient :: "string option \<times> string option"
  pd_doctor :: "string option \<times> string option"
  pd_pharmacist :: "(string \<times> string) option"
  pd_accessedBy :: UserRole

definition getPrescriptionDetails ::
  "gateway \<Rightarrow> string \<Rightarrow> UserContext \<Rightarrow> UserRole \<Rightarrow> (error + PrescriptionDetails) \<times> call list" where
  "getPrescriptionDetails g prescriptionId userContext r =
     (if prescriptionId = [] then (Inl (Error ''Prescription ID is required''), [])
      else
        let eff = effectiveRole r userContext in
        if eff = [] then
          (Inl (Error ''User role is required to retrieve prescription details''), [])
        else if role userContext = ADMIN \<and> eff \<noteq> ADMIN then
          (Inl (Error adminPrescriptionDetailsMessage), [])
        else
          let calls = [PrescriptionFindOne prescriptionId (userId userContext) eff] in
          (case prescription_findOne g prescriptionId (userId userContext) eff of
             Inl e \<Rightarrow> (Inl e, calls)
           | Inr None \<Rightarrow>
               (Inl (Error ''Prescription not found or you do not have permission to view it''),
                calls)
           | Inr (Some prescription) \<Rightarrow>
               (Inr \<lparr>pd_success = True,
                     pd_id = prescription_id prescription,
                     pd_issueDate = issueDate prescription,
                     pd_expiryDate = expiryDate prescription,
                     pd_isFulfilled = isFulfilled prescription,
                     pd_items = prescription_items prescription,
                     pd_patient =
                       (map_option fst (prescription_patient prescription),
                        map_option snd (prescription_patient prescription)),
                     pd_doctor =
                       (map_option fst (prescribedBy prescription),
                        map_option snd (prescribedBy prescription)),
                     pd_pharmacist = fulfilledBy prescription,
                     pd_accessedBy = eff\<rparr>, calls)))"

section \<open>Tool catalog\<close>

text \<open>
  The input of each tool of \<^verbatim>\<open>getTools\<close>, with the fields of its schema in the order
  the schema declares them:
  \<^item> \<open>ListDoctorsIn specialty\<close>
  \<^item> \<open>CheckDoctorAvailabilityIn doctorName dayOfWeek\<close>
  \<^item> \<open>ListAvailableDoctorsByDayIn dayOfWeek specialty\<close>
  \<^item> \<open>BookAppointmentIn doctorId userId startTime endTime type mode\<close>
  \<^item> \<open>GetMyAppointmentsIn userId status\<close>
  \<^item> \<open>CancelAppointmentIn appointmentId reason\<close>
  \<^item> \<open>GetMyPrescriptionsIn userId role\<close>
  \<^item> \<open>GetPrescriptionDetailsIn prescriptionId userId role\<close>
\<close>

datatype tool_input =
    ListDoctorsIn "string option"
  | CheckDoctorAvailabilityIn string string
  | ListAvailableDoctorsByDayIn string "string option"
  | BookAppointmentIn string string string string "string option" "string option"
  | GetMyAppointmentsIn string "string option"
  | CancelAppointmentIn string "string option"
  | GetMyPrescriptionsIn string string
  | GetPrescriptionDetailsIn string string string

datatype tool_output =
    ListDoctorsOut ListDoctorsResult
  | DoctorAvailabilityOut DoctorAvailabilityResult
  | AvailableDoctorsOut AvailableDoctorsResult
  | BookingOut BookingResult
  | MyAppointmentsOut MyAppointmentsResult
  | CancelOut CancelResult
  | MyPrescriptionsOut MyPrescriptionsResult
  | PrescriptionDetailsOut PrescriptionDetails

text \<open>
  The handler call that the \<^verbatim>\<open>try\<close> block of each tool awaits, with the arguments the
  tool hands on; the context is the one \<^verbatim>\<open>getTools\<close> was given.
\<close>

fun handler ::
  "gateway \<Rightarrow> (string \<Rightarrow> int option) \<Rightarrow> int \<Rightarrow> UserContext \<Rightarrow> tool_input \<Rightarrow>
   (error + tool_output) \<times> call list" where
  "handler g parseDate now userContext (ListDoctorsIn sp) =
     apfst (map_sum id ListDoctorsOut) (listDoctors g sp)"
| "handler g parseDate now userContext (CheckDoctorAvailabilityIn doctorName dayOfWeek) =
     apfst (map_sum id DoctorAvailabilityOut) (handleDoctorAvailabilityByDay g doctorName dayOfWeek)"
| "handler g parseDate now userContext (ListAvailableDoctorsByDayIn dayOfWeek sp) =
     apfst (map_sum id AvailableDoctorsOut) (listAvailableDoctorsByDay g dayOfWeek sp)"
| "handler g parseDate now userContext (BookAppointmentIn doctorId' uid startTime endTime type' mode') =
     apfst (map_sum id BookingOut)
       (bookAppointment g parseDate now doctorId' userContext startTime endTime type' mode')"
| "handler g parseDate now userContext (GetMyAppointmentsIn uid status) =
     apfst (map_sum id MyAppointmentsOut) (getMyAppointments g userContext status)"
| "handler g parseDate now userContext (CancelAppointmentIn appointmentId reason) =
     apfst (map_sum id CancelOut) (cancelAppointment g appointmentId userContext reason)"
| "handler g parseDate now userContext (GetMyPrescriptionsIn uid r) =
     apfst (map_sum id MyPrescriptionsOut) (getMyPrescriptions g userContext r)"
| "handler g parseDate now userContext (GetPrescriptionDetailsIn prescriptionId uid r) =
     apfst (map_sum id PrescriptionDetailsOut) (getPrescriptionDetails g prescriptionId userContext r)"

text \<open>The payload that the \<^verbatim>\<open>catch\<close> block of \<^verbatim>\<open>list_doctors\<close> returns.\<close>

definition listDoctorsFailure :: "error \<Rightarrow> ListDoctorsResult" where
  "listDoctorsFailure e =
     \<lparr>ld_success = False, ld_error = Some ''Failed to fetch doctors list'',
      ld_message = Some (messageOf e), ld_specialty = None, ld_total = 0, ld_doctors = []\<rparr>"

text \<open>
  \<^verbatim>\<open>execute\<close> of each tool: \<^verbatim>\<open>try { const result = await ...; return result }\<close>
  followed by the tool's own \<^verbatim>\<open>catch\<close> block, which logs and then either returns a
  payload (\<^verbatim>\<open>list_doctors\<close>) or executes \<^verbatim>\<open>throw error\<close> (every other tool).
\<close>

fun execute ::
  "gateway \<Rightarrow> (string \<Rightarrow> int option) \<Rightarrow> int \<Rightarrow> UserContext \<Rightarrow> tool_input \<Rightarrow>
   (error + tool_output) \<times> call list" where
  "execute g parseDate now userContext (ListDoctorsIn sp) =
     (case listDoctors g sp of
        (Inr result, calls) \<Rightarrow> (Inr (ListDoctorsOut result), calls)
      | (Inl e, calls) \<Rightarrow> (Inr (ListDoctorsOut (listDoctorsFailure e)), calls))"
| "execute g parseDate now userContext (CheckDoctorAvailabilityIn doctorName dayOfWeek) =
     (case handleDoctorAvailabilityByDay g doctorName dayOfWeek of
        (Inr result, calls) \<Rightarrow> (Inr (DoctorAvailabilityOut result), calls)
      | (Inl e, calls) \<Rightarrow> (Inl e, calls))"
| "execute g parseDate now userContext (ListAvailableDoctorsByDayIn dayOfWeek sp) =
     (case listAvailableDoctorsByDay g dayOfWeek sp of
        (Inr result, calls) \<Rightarrow> (Inr (AvailableDoctorsOut result), calls)
      | (Inl e, calls) \<Rightarrow> (Inl e, calls))"
| "execute g parseDate now userContext (BookAppointmentIn doctorId' uid startTime endTime type' mode') =
     (case bookAppointment g parseDate now doctorId' userContext startTime endTime type' mode' of
        (Inr result, calls) \<Rightarrow> (Inr (BookingOut result), calls)
      | (Inl e, calls) \<Rightarrow> (Inl e, calls))"
| "execute g parseDate now userContext (GetMyAppointmentsIn uid status) =
     (case getMyAppointments g userContext status of
        (Inr result, calls) \<Rightarrow> (Inr (MyAppointmentsOut result), calls)
      | (Inl e, calls) \<Rightarrow> (Inl e, calls))"
| "execute g parseDate now userContext (CancelAppointmentIn appointmentId reason) =
     (case cancelAppointment g appointmentId userContext reason of
        (Inr result, calls) \<Rightarrow> (Inr (CancelOut result), calls)
      | (Inl e, calls) \<Rightarrow> (Inl e, calls))"
| "execute g parseDate now userContext (GetMyPrescriptionsIn uid r) =
     (case getMyPrescriptions g userContext r of
        (Inr result, calls) \<Rightarrow> (Inr (MyPrescriptionsOut result), calls)
      | (Inl e, calls) \<Rightarrow> (Inl e, calls))"
| "execute g parseDate now userContext (GetPrescriptionDetailsIn prescriptionId uid r) =
     (case getPrescriptionDetails g prescriptionId userContext r of
        (Inr result, calls) \<Rightarrow> (Inr (PrescriptionDetailsOut result), calls)
      | (Inl e, calls) \<Rightarrow> (Inl e, calls))"

text \<open>The two groups of tools: the tools that only read, and the tools that change an appointment.\<close>

fun isReadTool :: "tool_input \<Rightarrow> bool" where
  "isReadTool (BookAppointmentIn _ _ _ _ _ _) = False"
| "isReadTool (CancelAppointmentIn _ _) = False"
| "isReadTool _ = True"

section \<open>Response writer\<close>

text \<open>
  The state of the Express response \<^verbatim>\<open>res\<close> as far as the service reads and changes it.
  \<open>written\<close> lists the chunks of \<^verbatim>\<open>res.write\<close> in order; \<open>jsonBody\<close> is the object
  of \<^verbatim>\<open>res.json\<close> as a list of its fields.
\<close>

record Response =
  headersSent :: bool
  destroyed :: bool
  writableEnded :: bool
  statusCode :: nat
  headers :: "(string \<times> string) list"
  jsonBody :: "(string \<times> string) list option"
  written :: "string list"


text \<open>\<^verbatim>\<open>res.write(chunk)\<close>: the first write also sends the headers.\<close>

definition res_write :: "Response \<Rightarrow> string \<Rightarrow> Response" where
  "res_write res chunk = res\<lparr>written := written res @ [chunk], headersSent := True\<rparr>"

definition res_end :: "Response \<Rightarrow> Response" where
  "res_end res = res\<lparr>writableEnded := True, headersSent := True\<rparr>"

text \<open>\<^verbatim>\<open>res.status(code).json(body)\<close> sends the whole response.\<close>

definition res_status_json :: "Response \<Rightarrow> nat \<Rightarrow> (string \<times> string) list \<Rightarrow> Response" where
  "res_status_json res code body =
     res\<lparr>statusCode := code, jsonBody := Some body, headersSent := True, writableEnded := True\<rparr>"

text \<open>\<^verbatim>\<open>!res.destroyed && !res.writableEnded\<close>\<close>

definition writable :: "Response \<Rightarrow> bool" where
  "writable res = (\<not> destroyed res \<and> \<not> writableEnded res)"

definition writeIfWritable :: "Response \<Rightarrow> string \<Rightarrow> Response" where
  "writeIfWritable res chunk = (if writable res then res_write res chunk else res)"

text \<open>
  The four \<^verbatim>\<open>res.setHeader\<close> calls of \<^verbatim>\<open>handleRequest\<close>; Node throws when the headers
  have been sent.
\<close>

definition setStreamingHeaders :: "Response \<Rightarrow> error + Response" where
  "setStreamingHeaders res =
     (if headersSent res then Inl (Error ''Cannot set headers after they are sent to the client'')
      else Inr (res\<lparr>headers := headers res @
                  [(''Content-Type'', ''text/plain; charset=utf-8''),
                   (''Cache-Control'', ''no-cache''),
                   (''Connection'', ''keep-alive''),
                   (''Transfer-Encoding'', ''chunked'')]\<rparr>))"

definition rateLimitBody :: "(string \<times> string) list" where
  "rateLimitBody =
     [(''error'', ''Rate limit exceeded''),
      (''message'', ''You have reached the message limit for today. Please try again later.'')]"

definition sendRateLimitResponse :: "Response \<Rightarrow> Response" where
  "sendRateLimitResponse res =
     (if \<not> headersSent res then res_status_json res 429 rateLimitBody else res)"

definition handleResponseError :: "Response \<Rightarrow> error \<Rightarrow> Response" where
  "handleResponseError res e =
     (let errorMessage = (case e of Error m \<Rightarrow> m | NonError \<Rightarrow> ''Response generation failed'')
      in if \<not> headersSent res then res_status_json res 500 [(''error'', errorMessage)] else res)"

section \<open>Generation orchestrator\<close>

record MessageDto =
  msg_role :: string
  content :: string

text \<open>
  How the iteration over \<^verbatim>\<open>result.textStream\<close> ends once its deltas are consumed: it
  completes, or it raises. The source runs the iteration in a race against a 30 s timer
  that rejects with \<^verbatim>\<open>Stream iteration timeout\<close>. That timer is real time and is not
  part of the model: when it wins the race the \<^verbatim>\<open>catch\<close> block runs while the loop,
  which nothing cancels, goes on writing deltas; no end of the model stands for that.
\<close>

datatype stream_end = Completed | Raised error

text \<open>
  The object that \<^verbatim>\<open>streamText\<close> returns: the deltas of \<^verbatim>\<open>textStream\<close>, the end of
  the iteration, and the outcome of the promise \<^verbatim>\<open>result.text\<close>.
\<close>

record Generation =
  textStream :: "string list"
  streamEnd :: stream_end
  fullText :: "error + string"

text \<open>
  The language model. \<open>streamText\<close> answers the call of \<^verbatim>\<open>generateMedicalResponse\<close>
  for a context and the client's messages (the system message and the tool catalog are
  built from the context; the tools the model invokes run inside the call); \<open>Inl\<close> is an
  exception thrown before a result exists. \<open>probe\<close> is the outcome of \<^verbatim>\<open>testResult.text\<close>
  for the fixed \<^verbatim>\<open>Say hello\<close> call.
\<close>

record llm =
  streamText :: "UserContext \<Rightarrow> MessageDto list \<Rightarrow> error + Generation"
  probe :: "error + string"

text \<open>
  The loop \<^verbatim>\<open>for await (const delta of result.textStream)\<close> on the state
  \<open>(res, chunkCount, totalContent)\<close>; the last component of the result tells whether the
  loop was left by \<^verbatim>\<open>break\<close>. (\<^verbatim>\<open>hasStarted\<close> is only logged.)
\<close>

fun streamLoop ::
  "string list \<Rightarrow> Response \<times> nat \<times> string \<Rightarrow> Response \<times> nat \<times> string \<times> bool" where
  "streamLoop [] (res, chunkCount, totalContent) = (res, chunkCount, totalContent, False)"
| "streamLoop (delta # rest) (res, chunkCount, totalContent) =
     (if destroyed res \<or> writableEnded res then (res, chunkCount, totalContent, True)
      else streamLoop rest (res_write res delta, chunkCount + 1, totalContent @ delta))"

definition streamApology :: string where
  "streamApology = [CHR 0x0A, CHR 0x0A] @ ''Sorry, there was an error in the response stream.''"

definition generationApology :: string where
  "generationApology = [CHR 0x0A, CHR 0x0A] @ ''Sorry, there was an error generating the response.''"

definition connectionWorkingMessage :: string where
  "connectionWorkingMessage =
     ''I apologize, but I encountered a streaming issue. However, I can confirm the connection is working. Please try your request again.''"

definition serviceIssueMessage :: string where
  "serviceIssueMessage =
     ''I apologize, but I encountered an issue with the AI service. Please try again later.''"

text \<open>
  The \<^verbatim>\<open>catch (streamError)\<close> block: one \<^verbatim>\<open>await result.text\<close>. The result is the
  response and the chunk count after the block.
\<close>

definition textFallback :: "Generation \<Rightarrow> Response \<times> nat \<Rightarrow> Response \<times> nat" where
  "textFallback result st =
     (case st of (res, chunkCount) \<Rightarrow>
        (case fullText result of
           Inr t \<Rightarrow> if t \<noteq> [] \<and> writable res then (res_write res t, 1) else (res, chunkCount)
         | Inl fallbackError \<Rightarrow> (writeIfWritable res streamApology, chunkCount)))"

text \<open>The block \<^verbatim>\<open>if (chunkCount === 0)\<close>: the test call \<^verbatim>\<open>Say hello\<close>.\<close>

definition diagnosticProbe :: "llm \<Rightarrow> Response \<Rightarrow> Response" where
  "diagnosticProbe m res =
     (case probe m of
        Inr testText \<Rightarrow> writeIfWritable res connectionWorkingMessage
      | Inl testError \<Rightarrow> writeIfWritable res serviceIssueMessage)"

text \<open>
  \<^verbatim>\<open>generateMedicalResponse\<close>. The first component of the result is the error the method
  throws, if it throws. The timer \<^verbatim>\<open>streamTimeout\<close> (45 s) is real time and is not part
  of the model, as are the 30 s timer of the race and the timer \<^verbatim>\<open>requestTimeout\<close> of
  \<^verbatim>\<open>handleRequest\<close>: the model is a run in which no timer fires.
\<close>

definition generateMedicalResponse ::
  "llm \<Rightarrow> MessageDto list \<Rightarrow> UserContext \<Rightarrow> Response \<Rightarrow> error option \<times> Response \<times> call list" where
  "generateMedicalResponse m messages userContext res =
     (case streamText m userContext messages of
        Inl e \<Rightarrow>
          (Some e,
           (if writable res then
              (if \<not> headersSent res then
                 res_status_json res 500
                   [(''error'', ''Failed to generate response''), (''message'', messageOf e)]
               else res_end (res_write res generationApology))
            else res),
           [StreamText])
      | Inr result \<Rightarrow>
          (case streamLoop (textStream result) (res, 0, []) of
             (res1, chunkCount1, totalContent, broke) \<Rightarrow>
               let raised = (\<not> broke \<and> streamEnd result \<noteq> Completed);
                   (res2, chunkCount2) =
                     (if raised then textFallback result (res1, chunkCount1)
                      else (res1, chunkCount1));
                   res3 = (if chunkCount2 = 0 then diagnosticProbe m res2 else res2);
                   res4 = (if writable res3 then res_end res3 else res3)
               in (None, res4,
                   [StreamText] @ (if raised then [AwaitText] else []) @
                   (if chunkCount2 = 0 then [ProbeText] else []))))"

section \<open>Admission controller and request handler\<close>

definition RATE_LIMIT_COUNT :: int where "RATE_LIMIT_COUNT = 10"
definition RATE_LIMIT_TTL :: int where "RATE_LIMIT_TTL = 86400"

text \<open>
  The shared cache: a key holds a value and the instant at which it expires. A cached
  value is a number or a boolean. \<open>cache_set\<close> with a time-to-live \<open>ttl\<close> at the instant
  \<open>now\<close> makes the key expire at \<open>now + ttl\<close>. The instants are counted in the unit in
  which the cache manager reads its time-to-live argument. The cache manager is not part
  of the sources and the unit is its own (seconds in its early versions, milliseconds
  from version 5 on), so the model says nothing about how long 86400 of these units are.
\<close>

datatype cache_value = CBool bool | CNum int

type_synonym cache = "string \<Rightarrow> (cache_value \<times> int) option"

definition cache_get :: "cache \<Rightarrow> int \<Rightarrow> string \<Rightarrow> cache_value option" where
  "cache_get c now key =
     (case c key of
        None \<Rightarrow> None
      | Some (v, expires) \<Rightarrow> if now < expires then Some v else None)"

definition cache_set :: "cache \<Rightarrow> int \<Rightarrow> string \<Rightarrow> cache_value \<Rightarrow> int \<Rightarrow> cache" where
  "cache_set c now key v ttl = c(key \<mapsto> (v, now + ttl))"

text \<open>\<^verbatim>\<open>if (isBlocked)\<close>: the truthiness of what the cache answered.\<close>

fun truthyValue :: "cache_value option \<Rightarrow> bool" where
  "truthyValue None = False"
| "truthyValue (Some (CBool b)) = b"
| "truthyValue (Some (CNum n)) = (n \<noteq> 0)"

text \<open>\<^verbatim>\<open>(await get(countKey)) ?? 0\<close>, read as a number by \<^verbatim>\<open>>=\<close> and \<^verbatim>\<open>+\<close>.\<close>

fun countOf :: "cache_value option \<Rightarrow> int" where
  "countOf None = 0"
| "countOf (Some (CNum n)) = n"
| "countOf (Some (CBool b)) = (if b then 1 else 0)"

definition blockedKey :: "string \<Rightarrow> string" where
  "blockedKey ip = ''blocked:'' @ ip"

definition countKey :: "string \<Rightarrow> string" where
  "countKey ip = ''count:'' @ ip"

text \<open>
  \<^verbatim>\<open>handleRequest\<close>: the new cache, the response and the calls to the collaborators.
  \<open>now\<close> is the instant of the request on the clock of the cache.
\<close>

definition handleRequest ::
  "gateway \<Rightarrow> llm \<Rightarrow> int \<Rightarrow> cache \<Rightarrow> string \<Rightarrow> MessageDto list \<Rightarrow> Response \<Rightarrow> string \<Rightarrow> UserRole \<Rightarrow>
   cache \<times> Response \<times> call list" where
  "handleRequest g m now c ip messages res uid userRole =
     (if truthyValue (cache_get c now (blockedKey ip)) then (c, sendRateLimitResponse res, [])
      else
        let count = countOf (cache_get c now (countKey ip)) in
        if count \<ge> RATE_LIMIT_COUNT then
          (cache_set c now (blockedKey ip) (CBool True) RATE_LIMIT_TTL,
           sendRateLimitResponse res, [])
        else
          let c' = cache_set c now (countKey ip) (CNum (count + 1)) RATE_LIMIT_TTL in
          if messages = [] then
            (c', handleResponseError res (Error ''Invalid or empty messages array''), [])
          else
            (case getUserContext g uid userRole of
               (Inl e, calls) \<Rightarrow> (c', handleResponseError res e, calls)
             | (Inr userContext, calls) \<Rightarrow>
                 (case setStreamingHeaders res of
                    Inl e \<Rightarrow> (c', handleResponseError res e, calls)
                  | Inr res1 \<Rightarrow>
                      (case generateMedicalResponse m messages userContext res1 of
                         (Some e, res2, calls2) \<Rightarrow>
                           (c', handleResponseError res2 e, calls @ calls2)
                       | (None, res2, calls2) \<Rightarrow> (c', res2, calls @ calls2)))))"





text \<open>One chat request to the endpoint, with the collaborators as they answer during it.\<close>

record ChatRequest =
  req_time :: int
  req_messages :: "MessageDto list"
  req_res :: Response
  req_userId :: string
  req_userRole :: UserRole
  req_gateway :: gateway
  req_llm :: llm

text \<open>
  The requests of one origin handled one after the other, each on the cache the one
  before it left: the outcome of every request, in order.
\<close>

fun serve :: "string \<Rightarrow> cache \<Rightarrow> ChatRequest list \<Rightarrow> (cache \<times> Response \<times> call list) list" where
  "serve ip c [] = []"
| "serve ip c (q # qs) =
     (let out = handleRequest (req_gateway q) (req_llm q) (req_time q) c ip (req_messages q)
                  (req_res q) (req_userId q) (req_userRole q)
      in out # serve ip (fst out) qs)"

section \<open>Sample collaborators\<close>

text \<open>
  Concrete collaborators on which the results below are instantiated: two doctors, of whom
  the first has an availability lookup that throws; one patient profile, for the user
  \<open>u1\<close>; a date parser that knows two instants of 1 January 2030; a model whose stream
  completes without a delta, and one whose stream and text both fail.
\<close>

definition drGrey :: Doctor where
  "drGrey = \<lparr>doctor_id = ''d1'', fullName = ''Grey'', specialty = ''Cardiology'',
             appointmentFee = 50, doctor_status = ''active''\<rparr>"

definition drHouse :: Doctor where
  "drHouse = \<lparr>doctor_id = ''d2'', fullName = ''House'', specialty = ''Neurology'',
              appointmentFee = 80, doctor_status = ''active''\<rparr>"

definition morningSlot :: Slot where
  "morningSlot = \<lparr>slot_start = ''09:00'', slot_end = ''09:30''\<rparr>"

definition createdFrom :: "AppointmentDraft \<Rightarrow> Appointment" where
  "createdFrom d =
     \<lparr>appointment_id = ''a1'', appointment_datetime = draft_datetime d,
      appointment_status = draft_status d, appointment_type = draft_type d,
      appointment_mode = draft_mode d, appointment_doctorName = None,
      appointment_patientName = None, appointment_doctorUser = NotLoaded,
      appointment_patientUser = UserId ''u1''\<rparr>"

definition demoGateway :: gateway where
  "demoGateway =
     \<lparr>patient_findByUserId = (\<lambda>u. if u = ''u1'' then Inr (Some ''p1'') else Inr None),
      doctor_findByUserId = (\<lambda>u. Inr None),
      pharmacist_findByUserId = (\<lambda>u. Inr None),
      doctor_findAll = (\<lambda>p f. Inr \<lparr>data = [drGrey, drHouse], total = 2\<rparr>),
      getDoctorAvailability =
        (\<lambda>d day. if d = ''d1'' then Inl (Error ''availability lookup failed'')
                  else Inr \<lparr>availableSlots = [morningSlot], busySlots = []\<rparr>),
      doctor_findOne = (\<lambda>d. if d = ''d2'' then Inr (Some drHouse) else Inr None),
      appointment_create = (\<lambda>d. Inr (createdFrom d)),
      appointment_findAll = (\<lambda>p f u sc. Inr \<lparr>appointments_data = [], appointments_total = 0\<rparr>),
      appointment_findOne = (\<lambda>a. Inr None),
      appointment_cancel = (\<lambda>a r. Inl (Error ''Appointment not found'')),
      prescription_findAll = (\<lambda>u r. Inr []),
      prescription_findOne = (\<lambda>p u r. Inr None)\<rparr>"

definition demoParse :: "string \<Rightarrow> int option" where
  "demoParse s =
     (if s = ''2030-01-01T10:00:00.000Z'' then Some 1893492000000
      else if s = ''2030-01-01T10:30:00.000Z'' then Some 1893493800000
      else None)"

definition patientContext :: UserContext where
  "patientContext = \<lparr>userId = ''u1'', role = PATIENT, patientId = Some ''p1'', doctorId = None\<rparr>"

definition adminContext :: UserContext where
  "adminContext = \<lparr>userId = ''u9'', role = ADMIN, patientId = None, doctorId = None\<rparr>"





text \<open>Two time stamps that the sample parser knows, half an hour apart.\<close>

definition morning :: string where "morning = ''2030-01-01T10:00:00.000Z''"

definition later :: string where "later = ''2030-01-01T10:30:00.000Z''"

text \<open>The draft of the sample booking, and a doctor service that is down.\<close>

definition demoDraft :: AppointmentDraft where
  "demoDraft =
     \<lparr>draft_patientId = ''p1'', draft_doctorId = ''d2'', draft_datetime = 1893492000000,
      draft_endTime = 1893493800000, draft_startTime = 1893492000000,
      draft_status = SCHEDULED, draft_type = CONSULTATION, draft_mode = VIRTUAL\<rparr>"

definition downGateway :: gateway where
  "downGateway = demoGateway\<lparr>doctor_findAll := (\<lambda>p f. Inl NonError)\<rparr>"





section \<open>Notions of the statements\<close>

text \<open>The four roles of \<^verbatim>\<open>UserRole\<close>.\<close>

definition recognized :: "UserRole \<Rightarrow> bool" where
  "recognized r = (r \<in> {PATIENT, DOCTOR, PHARMACIST, ADMIN})"

text \<open>
  A doctor counts for a day when the availability lookup answers, and answers with at
  least one available slot.
\<close>

definition hasSlots :: "gateway \<Rightarrow> string \<Rightarrow> Doctor \<Rightarrow> bool" where
  "hasSlots g day d =
     (case getDoctorAvailability g (doctor_id d) day of
        Inl e \<Rightarrow> False
      | Inr a \<Rightarrow> availableSlots a \<noteq> [])"











section \<open>Results\<close>

subsection \<open>Context resolver\<close>

lemma roles_distinct:
  "PATIENT \<noteq> DOCTOR" "PATIENT \<noteq> PHARMACIST" "PATIENT \<noteq> ADMIN"
  "DOCTOR \<noteq> PHARMACIST" "DOCTOR \<noteq> ADMIN" "PHARMACIST \<noteq> ADMIN"
  by (simp_all add: PATIENT_def DOCTOR_def PHARMACIST_def ADMIN_def)

text \<open>
  Claim C1, as the spec states it, fails: for a role outside the four of \<^verbatim>\<open>UserRole\<close>
  the \<^verbatim>\<open>default\<close> branch of \<^verbatim>\<open>getUserContext\<close> does not reject. For the user \<open>u1\<close>
  and the role \<open>nurse\<close> the resolver returns a context whose role is \<open>patient\<close> and
  whose \<open>patientId\<close> is undefined, without a profile lookup.
\<close>

theorem unknown_role_counterexample:
  "''nurse'' \<notin> {PATIENT, DOCTOR, PHARMACIST, ADMIN} \<and>
   getUserContext demoGateway ''u1'' ''nurse'' =
     (Inr \<lparr>userId = ''u1'', role = PATIENT, patientId = None, doctorId = None\<rparr>, [])"
  by (simp add: getUserContext_def PATIENT_def DOCTOR_def PHARMACIST_def ADMIN_def)

text \<open>
  Claim C1, amended. For every identity and declared role:
  \<^item> for the role \<open>patient\<close> with no matching patient profile the resolver fails with
    \<^verbatim>\<open>Patient profile not found\<close>;
  \<^item> for a role outside \<open>patient\<close>, \<open>doctor\<close>, \<open>pharmacist\<close>, \<open>admin\<close> it returns, without any
    lookup, a context with the role \<open>patient\<close> and neither a \<open>patientId\<close> nor a \<open>doctorId\<close>;
  \<^item> for one of the four roles it returns a context only with that role and the caller's
    user id, and, unless the role is \<open>admin\<close>, only when the profile of the role exists: the
    patient's id is stored in \<open>patientId\<close>, the doctor's and the pharmacist's in \<open>doctorId\<close>.
\<close>

theorem context_resolution:
  "(r = PATIENT \<and> patient_findByUserId g uid = Inr None \<longrightarrow>
      getUserContext g uid r = (Inl (Error ''Patient profile not found''), [PatientFindByUserId uid])) \<and>
   (\<not> recognized r \<longrightarrow>
      getUserContext g uid r =
        (Inr \<lparr>userId = uid, role = PATIENT, patientId = None, doctorId = None\<rparr>, [])) \<and>
   (recognized r \<and> fst (getUserContext g uid r) = Inr ctx \<longrightarrow>
      userId ctx = uid \<and> role ctx = r \<and>
      (r = PATIENT \<longrightarrow> (\<exists>pid. patient_findByUserId g uid = Inr (Some pid) \<and>
                                patientId ctx = Some pid \<and> doctorId ctx = None)) \<and>
      (r = DOCTOR \<longrightarrow> (\<exists>did. doctor_findByUserId g uid = Inr (Some did) \<and>
                               doctorId ctx = Some did \<and> patientId ctx = None)) \<and>
      (r = PHARMACIST \<longrightarrow> (\<exists>phid. pharmacist_findByUserId g uid = Inr (Some phid) \<and>
                                   doctorId ctx = Some phid \<and> patientId ctx = None)) \<and>
      (r = ADMIN \<longrightarrow> patientId ctx = None \<and> doctorId ctx = None))"
proof -
  have a: "r = PATIENT \<and> patient_findByUserId g uid = Inr None \<longrightarrow>
      getUserContext g uid r = (Inl (Error ''Patient profile not found''), [PatientFindByUserId uid])"
    by (simp add: getUserContext_def)
  have b: "\<not> recognized r \<longrightarrow>
      getUserContext g uid r =
        (Inr \<lparr>userId = uid, role = PATIENT, patientId = None, doctorId = None\<rparr>, [])"
    by (simp add: getUserContext_def recognized_def)
  have c: "recognized r \<and> fst (getUserContext g uid r) = Inr ctx \<longrightarrow>
      userId ctx = uid \<and> role ctx = r \<and>
      (r = PATIENT \<longrightarrow> (\<exists>pid. patient_findByUserId g uid = Inr (Some pid) \<and>
                                patientId ctx = Some pid \<and> doctorId ctx = None)) \<and>
      (r = DOCTOR \<longrightarrow> (\<exists>did. doctor_findByUserId g uid = Inr (Some did) \<and>
                               doctorId ctx = Some did \<and> patientId ctx = None)) \<and>
      (r = PHARMACIST \<longrightarrow> (\<exists>phid. pharmacist_findByUserId g uid = Inr (Some phid) \<and>
                                   doctorId ctx = Some phid \<and> patientId ctx = None)) \<and>
      (r = ADMIN \<longrightarrow> patientId ctx = None \<and> doctorId ctx = None)"
    using roles_distinct
    by (auto simp add: getUserContext_def recognized_def split: sum.splits option.splits if_splits)
  from a b c show ?thesis by blast
qed

text \<open>
  The three cases on the sample collaborators: the user \<open>u2\<close> has no patient profile,
  \<open>nurse\<close> is no role, and the user \<open>u1\<close> is the patient \<open>p1\<close>.
\<close>

theorem context_resolution_witness:
  "patient_findByUserId demoGateway ''u2'' = Inr None \<and>
   getUserContext demoGateway ''u2'' PATIENT =
     (Inl (Error ''Patient profile not found''), [PatientFindByUserId ''u2'']) \<and>
   \<not> recognized ''nurse'' \<and>
   getUserContext demoGateway ''u1'' ''nurse'' =
     (Inr \<lparr>userId = ''u1'', role = PATIENT, patientId = None, doctorId = None\<rparr>, []) \<and>
   recognized PATIENT \<and>
   fst (getUserContext demoGateway ''u1'' PATIENT) = Inr patientContext \<and>
   patient_findByUserId demoGateway ''u1'' = Inr (Some ''p1'') \<and>
   patientId patientContext = Some ''p1''"
proof -
  have h1: "patient_findByUserId demoGateway ''u2'' = Inr None"
    by (simp add: demoGateway_def)
  have h2: "\<not> recognized ''nurse''"
    by (simp add: recognized_def PATIENT_def DOCTOR_def PHARMACIST_def ADMIN_def)
  have h3: "recognized PATIENT" by (simp add: recognized_def)
  have h4: "fst (getUserContext demoGateway ''u1'' PATIENT) = Inr patientContext"
    by (simp add: getUserContext_def demoGateway_def patientContext_def)
  have h5: "patient_findByUserId demoGateway ''u1'' = Inr (Some ''p1'')"
    by (simp add: demoGateway_def)
  from context_resolution [of PATIENT demoGateway "''u2''" patientContext] h1
  have c1: "getUserContext demoGateway ''u2'' PATIENT =
     (Inl (Error ''Patient profile not found''), [PatientFindByUserId ''u2''])" by blast
  from context_resolution [of "''nurse''" demoGateway "''u1''" patientContext] h2
  have c2: "getUserContext demoGateway ''u1'' ''nurse'' =
     (Inr \<lparr>userId = ''u1'', role = PATIENT, patientId = None, doctorId = None\<rparr>, [])" by blast
  from context_resolution [of PATIENT demoGateway "''u1''" patientContext] h3 h4 h5
  have c3: "patientId patientContext = Some ''p1''" by auto
  from h1 h2 h3 h4 h5 c1 c2 c3 show ?thesis by blast
qed

subsection \<open>Day of the week\<close>

text \<open>
  Claim C4, as the spec states it, fails for \<^verbatim>\<open>check_doctor_availability\<close>: the empty
  string does not canonicalize to a day name, and \<^verbatim>\<open>handleDoctorAvailabilityByDay\<close>
  rejects it in its first guard with \<^verbatim>\<open>Doctor name and day of week are required\<close>, which
  is not the invalid-day error.
\<close>

theorem invalid_day_counterexample:
  "\<not> isValidDayOfWeek (normalizeDayOfWeek []) \<and>
   handleDoctorAvailabilityByDay demoGateway ''House'' [] = (Inl (Error requiredMessage), []) \<and>
   requiredMessage \<noteq> invalidDayMessage"
  by (simp add: handleDoctorAvailabilityByDay_def isValidDayOfWeek_def validDays_def
      normalizeDayOfWeek_def requiredMessage_def invalidDayMessage_def)

text \<open>
  Claim C4, amended. \<open>normalizeDayOfWeek\<close> maps \<open>mon\<close>, \<open>Monday\<close> and \<open>MONDAY\<close> to
  \<open>Monday\<close>, as it maps every input that is \<open>mon\<close> or \<open>monday\<close> up to the case of its
  letters; every input that lower-cases to a key of the table is mapped to the key's day
  name, which is a valid day. For an input that does not canonicalize to one of the seven
  day names, both availability handlers throw before any call to the doctor service:
  \<^verbatim>\<open>listAvailableDoctorsByDay\<close> the invalid-day error, and
  \<^verbatim>\<open>handleDoctorAvailabilityByDay\<close> the invalid-day error when the doctor name and the
  day are not empty, and \<^verbatim>\<open>Doctor name and day of week are required\<close> when one of them
  is empty.
\<close>

theorem day_normalization:
  "normalizeDayOfWeek ''mon'' = ''Monday'' \<and>
   normalizeDayOfWeek ''Monday'' = ''Monday'' \<and>
   normalizeDayOfWeek ''MONDAY'' = ''Monday'' \<and>
   (toLowerCase day \<in> {''mon'', ''monday''} \<longrightarrow> normalizeDayOfWeek day = ''Monday'') \<and>
   (map_of days (toLowerCase day) = Some name \<longrightarrow>
      normalizeDayOfWeek day = name \<and> isValidDayOfWeek name) \<and>
   (\<not> isValidDayOfWeek (normalizeDayOfWeek day) \<longrightarrow>
      listAvailableDoctorsByDay g day sp = (Inl (Error invalidDayMessage), []) \<and>
      handleDoctorAvailabilityByDay g doctorName day =
        (Inl (Error (if doctorName = [] \<or> day = [] then requiredMessage
                     else invalidDayMessage)), []))"
proof -
  have a: "normalizeDayOfWeek ''mon'' = ''Monday''"
    by (simp add: normalizeDayOfWeek_def days_def kelvinSign_def toLowerChar_def)
  have b: "normalizeDayOfWeek ''Monday'' = ''Monday''"
    by (simp add: normalizeDayOfWeek_def days_def kelvinSign_def toLowerChar_def)
  have c: "normalizeDayOfWeek ''MONDAY'' = ''Monday''"
    by (simp add: normalizeDayOfWeek_def days_def kelvinSign_def toLowerChar_def)
  have d: "toLowerCase day \<in> {''mon'', ''monday''} \<longrightarrow> normalizeDayOfWeek day = ''Monday''"
    by (auto simp: normalizeDayOfWeek_def days_def kelvinSign_def)
  have e: "map_of days (toLowerCase day) = Some name \<longrightarrow>
      normalizeDayOfWeek day = name \<and> isValidDayOfWeek name"
    by (auto simp: normalizeDayOfWeek_def days_def kelvinSign_def isValidDayOfWeek_def
        validDays_def split: if_splits)
  have f: "\<not> isValidDayOfWeek (normalizeDayOfWeek day) \<longrightarrow>
      listAvailableDoctorsByDay g day sp = (Inl (Error invalidDayMessage), []) \<and>
      handleDoctorAvailabilityByDay g doctorName day =
        (Inl (Error (if doctorName = [] \<or> day = [] then requiredMessage
                     else invalidDayMessage)), [])"
    by (simp add: listAvailableDoctorsByDay_def handleDoctorAvailabilityByDay_def)
  from a b c d e f show ?thesis by blast
qed

lemma funday_invalid: "\<not> isValidDayOfWeek (normalizeDayOfWeek ''Funday'')"
  by (simp add: isValidDayOfWeek_def validDays_def normalizeDayOfWeek_def days_def
      kelvinSign_def toLowerChar_def)

text \<open>
  The input \<open>MoN\<close> is Monday; the input \<open>Funday\<close> is rejected by both handlers with the
  invalid-day error.
\<close>

theorem day_normalization_witness:
  "toLowerCase ''MoN'' \<in> {''mon'', ''monday''} \<and>
   map_of days (toLowerCase ''MoN'') = Some ''Monday'' \<and>
   normalizeDayOfWeek ''MoN'' = ''Monday'' \<and>
   \<not> isValidDayOfWeek (normalizeDayOfWeek ''Funday'') \<and>
   listAvailableDoctorsByDay demoGateway ''Funday'' None = (Inl (Error invalidDayMessage), []) \<and>
   handleDoctorAvailabilityByDay demoGateway ''House'' ''Funday'' =
     (Inl (Error invalidDayMessage), [])"
proof -
  have l: "toLowerCase ''MoN'' \<in> {''mon'', ''monday''}"
    by (simp add: kelvinSign_def toLowerChar_def)
  have m: "map_of days (toLowerCase ''MoN'') = Some ''Monday''"
    by (simp add: kelvinSign_def toLowerChar_def days_def)
  from day_normalization [of "''MoN''" "''Monday''" demoGateway None "''House''"] l m
  have n: "normalizeDayOfWeek ''MoN'' = ''Monday''" by blast
  from day_normalization [of "''Funday''" "''Monday''" demoGateway None "''House''"]
    funday_invalid
  have "listAvailableDoctorsByDay demoGateway ''Funday'' None =
          (Inl (Error invalidDayMessage), []) \<and>
        handleDoctorAvailabilityByDay demoGateway ''House'' ''Funday'' =
          (Inl (Error invalidDayMessage), [])"
    by simp
  with l m n funday_invalid show ?thesis by blast
qed

subsection \<open>Listing the doctors of a day\<close>

lemma availableDoctorsLoop_ids:
  "map ad_id (availableDoctorsLoop g day ds acc) =
   map ad_id acc @ map doctor_id (filter (hasSlots g day) ds)"
  by (induction ds arbitrary: acc) (auto simp: hasSlots_def split: sum.splits)

text \<open>
  Claim C5. For a valid day and every list of candidate doctors that the doctor service
  answers, \<^verbatim>\<open>listAvailableDoctorsByDay\<close> returns a payload and does not throw, whatever
  the availability lookups do: the doctors of the payload are, in order, the candidates
  whose lookup answered with at least one available slot (a candidate whose lookup throws
  is skipped), and \<open>total\<close> is their number. With two candidates, the first with a lookup
  that throws (or without slots) and the second with slots, the payload is a success with
  \<open>total = 1\<close> that holds the second doctor.
\<close>

theorem skips_failing_lookup:
  assumes "isValidDayOfWeek (normalizeDayOfWeek day)"
    and "doctor_findAll g \<lparr>page = 1, limit = 50\<rparr> (specialtyFilter sp) = Inr pg"
  shows "\<exists>r. fst (listAvailableDoctorsByDay g day sp) = Inr r \<and>
           map ad_id (av_doctors r) =
             map doctor_id (filter (hasSlots g (normalizeDayOfWeek day)) (data pg)) \<and>
           av_total r = length (av_doctors r) \<and>
           av_success r = (av_doctors r \<noteq> []) \<and>
           (\<forall>bad good. data pg = [bad, good] \<and> \<not> hasSlots g (normalizeDayOfWeek day) bad \<and>
              hasSlots g (normalizeDayOfWeek day) good \<longrightarrow>
              av_success r \<and> av_total r = 1 \<and> map ad_id (av_doctors r) = [doctor_id good])"
proof -
  let ?nd = "normalizeDayOfWeek day"
  let ?loop = "availableDoctorsLoop g ?nd (data pg) []"
  have ids: "map ad_id ?loop = map doctor_id (filter (hasSlots g ?nd) (data pg))"
    using availableDoctorsLoop_ids [of g ?nd "data pg" "[]"] by simp
  show ?thesis
  proof (cases "data pg = []")
    case True
    with assms show ?thesis
      by (simp add: listAvailableDoctorsByDay_def)
  next
    case False
    show ?thesis
    proof (cases "?loop = []")
      case True
      with False assms ids show ?thesis
        by (auto simp add: listAvailableDoctorsByDay_def Let_def)
    next
      case nonempty: False
      with False assms ids show ?thesis
        by (auto simp add: listAvailableDoctorsByDay_def Let_def)
    qed
  qed
qed

text \<open>
  On the sample collaborators the lookup of the first doctor throws and the second doctor
  has one slot on Monday: the listing succeeds with the second doctor alone.
\<close>

theorem skips_failing_lookup_witness:
  "isValidDayOfWeek (normalizeDayOfWeek ''Monday'') \<and>
   doctor_findAll demoGateway \<lparr>page = 1, limit = 50\<rparr> (specialtyFilter None) =
     Inr \<lparr>data = [drGrey, drHouse], total = 2\<rparr> \<and>
   getDoctorAvailability demoGateway (doctor_id drGrey) ''Monday'' =
     Inl (Error ''availability lookup failed'') \<and>
   hasSlots demoGateway ''Monday'' drHouse \<and>
   (\<exists>r. fst (listAvailableDoctorsByDay demoGateway ''Monday'' None) = Inr r \<and>
        av_success r \<and> av_total r = 1 \<and> map ad_id (av_doctors r) = [''d2''])"
proof -
  have nd: "normalizeDayOfWeek ''Monday'' = ''Monday''"
    by (simp add: normalizeDayOfWeek_def days_def kelvinSign_def toLowerChar_def)
  have h1: "isValidDayOfWeek (normalizeDayOfWeek ''Monday'')"
    by (simp add: nd isValidDayOfWeek_def validDays_def)
  have h2: "doctor_findAll demoGateway \<lparr>page = 1, limit = 50\<rparr> (specialtyFilter None) =
     Inr \<lparr>data = [drGrey, drHouse], total = 2\<rparr>"
    by (simp add: demoGateway_def)
  have h3: "getDoctorAvailability demoGateway (doctor_id drGrey) ''Monday'' =
     Inl (Error ''availability lookup failed'')"
    by (simp add: demoGateway_def drGrey_def)
  have h4: "hasSlots demoGateway ''Monday'' drHouse"
    by (simp add: hasSlots_def demoGateway_def drHouse_def)
  have h5: "\<not> hasSlots demoGateway ''Monday'' drGrey"
    by (simp add: hasSlots_def h3)
  from skips_failing_lookup [OF h1 h2] nd h4 h5
  have "\<exists>r. fst (listAvailableDoctorsByDay demoGateway ''Monday'' None) = Inr r \<and>
        av_success r \<and> av_total r = 1 \<and> map ad_id (av_doctors r) = [doctor_id drHouse]"
    by auto
  then have "\<exists>r. fst (listAvailableDoctorsByDay demoGateway ''Monday'' None) = Inr r \<and>
        av_success r \<and> av_total r = 1 \<and> map ad_id (av_doctors r) = [''d2'']"
    by (simp add: drHouse_def)
  with h1 h2 h3 h4 show ?thesis by blast
qed

subsection \<open>Booking\<close>

text \<open>
  Claim C3. For every booking input \<^verbatim>\<open>bookAppointment\<close> throws, and calls no
  collaborator (so not \<^verbatim>\<open>appointmentService.create\<close>), whenever the caller's role is not \<open>patient\<close>, or the
  context has no \<open>patientId\<close> (undefined or empty), or one of the two time stamps does not
  parse, or the start lies before \<open>now\<close>, or the start is not strictly before the end.
  When the role is \<open>patient\<close>, the \<open>patientId\<close> is present, the arguments are not empty
  (the empty string names no doctor and is no time stamp), both time stamps parse, the
  start is not in the past and strictly before the end, and the doctor exists, it calls
  \<^verbatim>\<open>appointmentService.create\<close> once, after the doctor lookup, with a draft of status
  \<open>SCHEDULED\<close> for the context's patient, the given doctor and the parsed times; when the
  appointment service answers with the appointment, the result is a success that carries
  the appointment's id and status.
\<close>

theorem booking_preconditions:
  "((role ctx \<noteq> PATIENT \<or> \<not> truthy (patientId ctx) \<or>
     parseDate startTime = None \<or> parseDate endTime = None \<or>
     (\<exists>start end'. parseDate startTime = Some start \<and> parseDate endTime = Some end' \<and>
        (start < now \<or> end' \<le> start))) \<longrightarrow>
      isl (fst (bookAppointment g parseDate now did ctx startTime endTime ty mo)) \<and>
      snd (bookAppointment g parseDate now did ctx startTime endTime ty mo) = []) \<and>
   (role ctx = PATIENT \<and> truthy (patientId ctx) \<and>
    did \<noteq> [] \<and> startTime \<noteq> [] \<and> endTime \<noteq> [] \<and>
    parseDate startTime = Some start \<and> parseDate endTime = Some end' \<and>
    now \<le> start \<and> start < end' \<and> doctor_findOne g did = Inr (Some doctor) \<longrightarrow>
      (\<exists>draft. snd (bookAppointment g parseDate now did ctx startTime endTime ty mo) =
                 [DoctorFindOne did, AppointmentCreate draft] \<and>
               draft_status draft = SCHEDULED \<and>
               patientId ctx = Some (draft_patientId draft) \<and>
               draft_doctorId draft = did \<and>
               draft_startTime draft = start \<and> draft_endTime draft = end' \<and>
               (\<forall>a. appointment_create g draft = Inr a \<longrightarrow>
                  (\<exists>res. fst (bookAppointment g parseDate now did ctx startTime endTime ty mo) = Inr res \<and>
                     br_success res \<and> br_appointmentId res = appointment_id a \<and>
                     bd_status (br_details res) = appointment_status a))))"
proof -
  let ?b = "bookAppointment g parseDate now did ctx startTime endTime ty mo"
  have a: "(role ctx \<noteq> PATIENT \<or> \<not> truthy (patientId ctx) \<or>
     parseDate startTime = None \<or> parseDate endTime = None \<or>
     (\<exists>start end'. parseDate startTime = Some start \<and> parseDate endTime = Some end' \<and>
        (start < now \<or> end' \<le> start))) \<longrightarrow>
      isl (fst ?b) \<and> snd ?b = []"
    by (auto simp add: bookAppointment_def split: option.splits)
  have b: "role ctx = PATIENT \<and> truthy (patientId ctx) \<and>
    did \<noteq> [] \<and> startTime \<noteq> [] \<and> endTime \<noteq> [] \<and>
    parseDate startTime = Some start \<and> parseDate endTime = Some end' \<and>
    now \<le> start \<and> start < end' \<and> doctor_findOne g did = Inr (Some doctor) \<longrightarrow>
      (\<exists>draft. snd ?b = [DoctorFindOne did, AppointmentCreate draft] \<and>
               draft_status draft = SCHEDULED \<and>
               patientId ctx = Some (draft_patientId draft) \<and>
               draft_doctorId draft = did \<and>
               draft_startTime draft = start \<and> draft_endTime draft = end' \<and>
               (\<forall>a. appointment_create g draft = Inr a \<longrightarrow>
                  (\<exists>res. fst ?b = Inr res \<and>
                     br_success res \<and> br_appointmentId res = appointment_id a \<and>
                     bd_status (br_details res) = appointment_status a)))"
    by (cases "patientId ctx") (auto simp add: bookAppointment_def Let_def split: sum.splits)
  from a b show ?thesis by blast
qed

text \<open>
  An admin is refused before any call; the patient \<open>p1\<close> books the doctor \<open>d2\<close> on
  1 January 2030 from 10:00 to 10:30 and the appointment is created as \<open>SCHEDULED\<close>.
\<close>

theorem booking_preconditions_witness:
  "role adminContext \<noteq> PATIENT \<and>
   isl (fst (bookAppointment demoGateway demoParse 0 ''d2'' adminContext morning later None None)) \<and>
   snd (bookAppointment demoGateway demoParse 0 ''d2'' adminContext morning later None None) = [] \<and>
   role patientContext = PATIENT \<and> truthy (patientId patientContext) \<and>
   demoParse morning = Some 1893492000000 \<and> demoParse later = Some 1893493800000 \<and>
   doctor_findOne demoGateway ''d2'' = Inr (Some drHouse) \<and>
   (\<exists>draft res.
      bookAppointment demoGateway demoParse 0 ''d2'' patientContext morning later None None =
        (Inr res, [DoctorFindOne ''d2'', AppointmentCreate draft]) \<and>
      draft_status draft = SCHEDULED \<and> draft_patientId draft = ''p1'' \<and>
      br_success res \<and> bd_status (br_details res) = SCHEDULED)"
proof -
  have h1: "role adminContext \<noteq> PATIENT"
    by (simp add: adminContext_def ADMIN_def PATIENT_def)
  have h2: "role patientContext = PATIENT \<and> truthy (patientId patientContext)"
    by (simp add: patientContext_def)
  have h3: "demoParse morning = Some 1893492000000 \<and> demoParse later = Some 1893493800000"
    by (simp add: demoParse_def morning_def later_def)
  have h4: "doctor_findOne demoGateway ''d2'' = Inr (Some drHouse)"
    by (simp add: demoGateway_def)
  have h5: "morning \<noteq> [] \<and> later \<noteq> []" by (simp add: morning_def later_def)
  have h6: "\<And>d. appointment_create demoGateway d = Inr (createdFrom d)"
    by (simp add: demoGateway_def)
  note t1 = booking_preconditions [of adminContext demoParse morning later 0 demoGateway
      "''d2''" None None 0 0 drHouse]
  note t2 = booking_preconditions [of patientContext demoParse morning later 0 demoGateway
      "''d2''" None None 1893492000000 1893493800000 drHouse]
  from t1 h1 have c1:
    "isl (fst (bookAppointment demoGateway demoParse 0 ''d2'' adminContext morning later None None)) \<and>
     snd (bookAppointment demoGateway demoParse 0 ''d2'' adminContext morning later None None) = []"
    by blast
  from t2 h2 h3 h4 h5 obtain draft where
    d: "snd (bookAppointment demoGateway demoParse 0 ''d2'' patientContext morning later None None) =
          [DoctorFindOne ''d2'', AppointmentCreate draft]"
      "draft_status draft = SCHEDULED"
      "patientId patientContext = Some (draft_patientId draft)"
      "\<forall>a. appointment_create demoGateway draft = Inr a \<longrightarrow>
          (\<exists>res. fst (bookAppointment demoGateway demoParse 0 ''d2'' patientContext morning later None None) = Inr res \<and>
             br_success res \<and> br_appointmentId res = appointment_id a \<and>
             bd_status (br_details res) = appointment_status a)"
    by auto
  from d(4) h6 [of draft] obtain res where
    r: "fst (bookAppointment demoGateway demoParse 0 ''d2'' patientContext morning later None None) = Inr res"
       "br_success res" "bd_status (br_details res) = appointment_status (createdFrom draft)"
    by blast
  from r(3) d(2) have s: "bd_status (br_details res) = SCHEDULED"
    by (simp add: createdFrom_def)
  from d(3) have p: "draft_patientId draft = ''p1''" by (simp add: patientContext_def)
  from r(1) d(1) have
    "bookAppointment demoGateway demoParse 0 ''d2'' patientContext morning later None None =
        (Inr res, [DoctorFindOne ''d2'', AppointmentCreate draft])"
    by (simp add: prod_eq_iff)
  with d(2) p r(2) s have
    "\<exists>draft res.
      bookAppointment demoGateway demoParse 0 ''d2'' patientContext morning later None None =
        (Inr res, [DoctorFindOne ''d2'', AppointmentCreate draft]) \<and>
      draft_status draft = SCHEDULED \<and> draft_patientId draft = ''p1'' \<and>
      br_success res \<and> bd_status (br_details res) = SCHEDULED"
    by blast
  with c1 h1 h2 h3 h4 show ?thesis by blast
qed

subsection \<open>Tool catalog\<close>

text \<open>
  Claim C6, as the spec states it, fails for the read tools other than \<^verbatim>\<open>list_doctors\<close>:
  their \<^verbatim>\<open>catch\<close> blocks log and execute \<^verbatim>\<open>throw error\<close>. On the sample
  collaborators \<^verbatim>\<open>check_doctor_availability\<close> for the doctor whose availability lookup
  throws raises the handler's error instead of returning a payload.
\<close>

theorem tool_failure_counterexample:
  "isReadTool (CheckDoctorAvailabilityIn ''Grey'' ''Monday'') \<and>
   handler demoGateway demoParse 0 patientContext (CheckDoctorAvailabilityIn ''Grey'' ''Monday'') =
     (Inl (unableToCheck ''Grey'' (Error ''availability lookup failed'')),
      [DoctorFindAll \<lparr>page = 1, limit = 1\<rparr> \<lparr>filter_specialty = None, filter_fullName = Some ''Grey''\<rparr>,
       GetDoctorAvailability ''d1'' ''Monday'']) \<and>
   fst (execute demoGateway demoParse 0 patientContext (CheckDoctorAvailabilityIn ''Grey'' ''Monday'')) =
     Inl (unableToCheck ''Grey'' (Error ''availability lookup failed''))"
  by (simp add: handleDoctorAvailabilityByDay_def demoGateway_def drGrey_def
      normalizeDayOfWeek_def days_def kelvinSign_def toLowerChar_def
      isValidDayOfWeek_def validDays_def)

text \<open>
  Claim C6, amended. For every tool of the catalog and every failure thrown by its
  underlying handler: \<^verbatim>\<open>list_doctors\<close> returns the structured failure payload
  (\<open>success = false\<close>, the error text, the message of the failure, no doctors); every other
  tool, the five other read tools as well as \<^verbatim>\<open>book_appointment\<close> and
  \<^verbatim>\<open>cancel_appointment\<close>, raises the handler's error again. The calls made are those of
  the handler.
\<close>

theorem tool_failure_propagation:
  "handler g parseDate now ctx inp = (Inl e, calls) \<longrightarrow>
     execute g parseDate now ctx inp =
       (case inp of
          ListDoctorsIn sp \<Rightarrow> (Inr (ListDoctorsOut (listDoctorsFailure e)), calls)
        | _ \<Rightarrow> (Inl e, calls))"
  by (cases inp) (auto split: prod.splits sum.splits)

text \<open>
  With the doctor service down, \<^verbatim>\<open>list_doctors\<close> returns the failure payload; a booking
  by an admin is raised again by \<^verbatim>\<open>book_appointment\<close>.
\<close>

theorem tool_failure_propagation_witness:
  "handler downGateway demoParse 0 patientContext (ListDoctorsIn None) =
     (Inl (Error ''Failed to retrieve doctors list''),
      [DoctorFindAll \<lparr>page = 1, limit = 50\<rparr> (specialtyFilter None)]) \<and>
   execute downGateway demoParse 0 patientContext (ListDoctorsIn None) =
     (Inr (ListDoctorsOut
        \<lparr>ld_success = False, ld_error = Some ''Failed to fetch doctors list'',
         ld_message = Some ''Failed to retrieve doctors list'', ld_specialty = None,
         ld_total = 0, ld_doctors = []\<rparr>),
      [DoctorFindAll \<lparr>page = 1, limit = 50\<rparr> (specialtyFilter None)]) \<and>
   handler demoGateway demoParse 0 adminContext
     (BookAppointmentIn ''d2'' ''u9'' morning later None None) =
     (Inl (Error (onlyPatientsMessage ADMIN)), []) \<and>
   execute demoGateway demoParse 0 adminContext
     (BookAppointmentIn ''d2'' ''u9'' morning later None None) =
     (Inl (Error (onlyPatientsMessage ADMIN)), [])"
proof -
  have h1: "handler downGateway demoParse 0 patientContext (ListDoctorsIn None) =
     (Inl (Error ''Failed to retrieve doctors list''),
      [DoctorFindAll \<lparr>page = 1, limit = 50\<rparr> (specialtyFilter None)])"
    by (simp add: listDoctors_def downGateway_def demoGateway_def)
  have h2: "handler demoGateway demoParse 0 adminContext
     (BookAppointmentIn ''d2'' ''u9'' morning later None None) =
     (Inl (Error (onlyPatientsMessage ADMIN)), [])"
    by (simp add: bookAppointment_def adminContext_def ADMIN_def PATIENT_def)
  from tool_failure_propagation [of downGateway demoParse 0 patientContext
      "ListDoctorsIn None" "Error ''Failed to retrieve doctors list''"
      "[DoctorFindAll \<lparr>page = 1, limit = 50\<rparr> (specialtyFilter None)]"] h1
  have c1: "execute downGateway demoParse 0 patientContext (ListDoctorsIn None) =
     (Inr (ListDoctorsOut
        \<lparr>ld_success = False, ld_error = Some ''Failed to fetch doctors list'',
         ld_message = Some ''Failed to retrieve doctors list'', ld_specialty = None,
         ld_total = 0, ld_doctors = []\<rparr>),
      [DoctorFindAll \<lparr>page = 1, limit = 50\<rparr> (specialtyFilter None)])"
    by (simp add: listDoctorsFailure_def)
  from tool_failure_propagation [of demoGateway demoParse 0 adminContext
      "BookAppointmentIn ''d2'' ''u9'' morning later None None"
      "Error (onlyPatientsMessage ADMIN)" "[]"] h2
  have c2: "execute demoGateway demoParse 0 adminContext
     (BookAppointmentIn ''d2'' ''u9'' morning later None None) =
     (Inl (Error (onlyPatientsMessage ADMIN)), [])"
    by simp
  from h1 h2 c1 c2 show ?thesis by blast
qed

subsection \<open>Role of a prescription request\<close>




subsection \<open>The user id of a booking\<close>

text \<open>
  Claim C10. The field \<open>userId\<close> of the input of \<^verbatim>\<open>book_appointment\<close> has no effect: two
  invocations that differ only in that field have the same result and make the same
  calls, and the \<open>patientId\<close> of every appointment handed to the appointment service is
  the \<open>patientId\<close> of the resolved context.
\<close>

theorem booking_ignores_input_userId:
  "execute g parseDate now ctx (BookAppointmentIn did uid startTime endTime ty mo) =
   execute g parseDate now ctx (BookAppointmentIn did uid' startTime endTime ty mo) \<and>
   (\<forall>draft. AppointmentCreate draft \<in>
        set (snd (execute g parseDate now ctx (BookAppointmentIn did uid startTime endTime ty mo))) \<longrightarrow>
      patientId ctx = Some (draft_patientId draft))"
proof -
  have "\<forall>draft. AppointmentCreate draft \<in>
        set (snd (bookAppointment g parseDate now did ctx startTime endTime ty mo)) \<longrightarrow>
      patientId ctx = Some (draft_patientId draft)"
    by (cases "patientId ctx")
      (auto simp add: bookAppointment_def Let_def split: sum.splits option.splits if_splits)
  then show ?thesis
    by (auto split: prod.splits sum.splits)
qed

lemma demo_booking:
  "bookAppointment demoGateway demoParse 0 ''d2'' patientContext morning later None None =
     (Inr \<lparr>br_success = True, br_appointmentId = ''a1'',
           br_details = \<lparr>bd_doctorName = ''House'', bd_type = CONSULTATION,
                         bd_mode = VIRTUAL, bd_status = SCHEDULED\<rparr>\<rparr>,
      [DoctorFindOne ''d2'', AppointmentCreate demoDraft])"
proof -
  have p: "demoParse morning = Some 1893492000000" "demoParse later = Some 1893493800000"
    by (simp_all add: demoParse_def morning_def later_def)
  have ne: "morning \<noteq> []" "later \<noteq> []" by (simp_all add: morning_def later_def)
  have g: "doctor_findOne demoGateway ''d2'' = Inr (Some drHouse)"
    "\<And>d. appointment_create demoGateway d = Inr (createdFrom d)"
    by (simp_all add: demoGateway_def)
  have c: "role patientContext = PATIENT" "patientId patientContext = Some ''p1''"
    by (simp_all add: patientContext_def)
  show ?thesis
    by (simp add: bookAppointment_def p ne g c Let_def orDefault_def demoDraft_def
        createdFrom_def drHouse_def)
qed

text \<open>The sample booking, made with the user id of somebody else, is created for \<open>p1\<close>.\<close>

theorem booking_ignores_input_userId_witness:
  "execute demoGateway demoParse 0 patientContext
     (BookAppointmentIn ''d2'' ''somebody else'' morning later None None) =
   execute demoGateway demoParse 0 patientContext
     (BookAppointmentIn ''d2'' ''u1'' morning later None None) \<and>
   AppointmentCreate demoDraft \<in>
     set (snd (execute demoGateway demoParse 0 patientContext
       (BookAppointmentIn ''d2'' ''somebody else'' morning later None None))) \<and>
   patientId patientContext = Some (draft_patientId demoDraft)"
proof -
  have h: "AppointmentCreate demoDraft \<in>
     set (snd (execute demoGateway demoParse 0 patientContext
       (BookAppointmentIn ''d2'' ''somebody else'' morning later None None)))"
    by (simp add: demo_booking)
  from booking_ignores_input_userId [of demoGateway demoParse 0 patientContext "''d2''"
      "''somebody else''" morning later None None "''u1''"] h
  show ?thesis by blast
qed

subsection \<open>Generation orchestrator\<close>


lemma writable_res_write [simp]: "writable (res_write res c) = writable res"
  by (simp add: writable_def res_write_def)






subsection \<open>Admission controller\<close>









lemma serve_length [simp]: "length (serve ip c qs) = length qs"
  by (induction qs arbitrary: c) (simp_all add: Let_def)













end
